theory Spec2Isabelle
  imports Main "HOL-Library.Word" "HOL-Library.Sublist" "HOL-Library.List_Lexorder"
begin

section \<open>JavaScript strings\<close>

text \<open>
  A JavaScript string is a sequence of UTF-16 code units. String literals of the
  scripts are ASCII; \<open>js\<close> turns an Isabelle literal into code units.
\<close>

type_synonym jschar = "16 word"
type_synonym jsstring = "jschar list"

definition cu :: "char \<Rightarrow> jschar" where
  "cu c = of_nat (of_char c)"

definition js :: "string \<Rightarrow> jsstring" where
  "js s = map cu s"

text \<open>\<^verbatim>\<open>s.startsWith(p)\<close>, \<^verbatim>\<open>s.endsWith(p)\<close> and \<^verbatim>\<open>s.includes(p)\<close>.\<close>

definition startsWith :: "jsstring \<Rightarrow> jsstring \<Rightarrow> bool" where
  "startsWith s p = prefix p s"

definition endsWith :: "jsstring \<Rightarrow> jsstring \<Rightarrow> bool" where
  "endsWith s p = suffix p s"

fun str_includes :: "jsstring \<Rightarrow> jsstring \<Rightarrow> bool" where
  "str_includes [] p = (p = [])"
| "str_includes (c # cs) p = (prefix p (c # cs) \<or> str_includes cs p)"

text \<open>
  A \<^verbatim>\<open>Set\<close> keeps its elements in insertion order and ignores an element it already
  holds; \<^verbatim>\<open>Array.from(set)\<close> and \<^verbatim>\<open>[...set]\<close> read it in that order. The model of a set
  of strings is the list of its elements in insertion order.
\<close>

definition Set_add :: "'a list \<Rightarrow> 'a \<Rightarrow> 'a list" where
  "Set_add xs x = (if x \<in> set xs then xs else xs @ [x])"

definition new_Set :: "'a list \<Rightarrow> 'a list" where
  "new_Set xs = foldl Set_add [] xs"

section \<open>Regular expressions\<close>

text \<open>
  The regular expressions of the scripts, with the backtracking semantics of
  ECMAScript: \<open>matches r (caps, s)\<close> lists, in the order in which the backtracking
  matcher tries them, the ways in which \<open>r\<close> matches a prefix of \<open>s\<close>, each as the captures
  after the match and the rest of the input. A greedy star tries one more iteration first;
  an iteration that consumes nothing is rejected. Capture groups occur outside of
  repetitions only, so the reset of captures at each iteration plays no part.
\<close>

datatype regex =
    Eps
  | Class "jschar \<Rightarrow> bool"
  | Seq regex regex
  | Alt regex regex
  | Star regex
  | Group nat regex

type_synonym captures = "nat \<Rightarrow> jsstring option"
type_synonym mstate = "captures \<times> jsstring"

fun matches :: "regex \<Rightarrow> mstate \<Rightarrow> mstate list" where
  "matches Eps st = [st]"
| "matches (Class P) st =
     (case snd st of [] \<Rightarrow> [] | c # cs \<Rightarrow> if P c then [(fst st, cs)] else [])"
| "matches (Seq r1 r2) st = concat (map (matches r2) (matches r1 st))"
| "matches (Alt r1 r2) st = matches r1 st @ matches r2 st"
| "matches (Star r) st =
     concat (map (\<lambda>st'. if length (snd st') < length (snd st) then matches (Star r) st' else [])
                 (matches r st)) @ [st]"
| "matches (Group i r) st =
     map (\<lambda>st'. ((fst st')(i \<mapsto> take (length (snd st) - length (snd st')) (snd st)), snd st'))
         (matches r st)"

declare matches.simps(5) [simp del]

text \<open>\<open>sets_group i r\<close>: every match of \<open>r\<close> goes through a capture group numbered \<open>i\<close>.\<close>

fun sets_group :: "nat \<Rightarrow> regex \<Rightarrow> bool" where
  "sets_group i Eps = False"
| "sets_group i (Class P) = False"
| "sets_group i (Seq r1 r2) = (sets_group i r1 \<or> sets_group i r2)"
| "sets_group i (Alt r1 r2) = (sets_group i r1 \<and> sets_group i r2)"
| "sets_group i (Star r) = False"
| "sets_group i (Group j r) = (i = j \<or> sets_group i r)"

definition Lit :: "jschar \<Rightarrow> regex" where
  "Lit c = Class (\<lambda>x. x = c)"

fun Str :: "jsstring \<Rightarrow> regex" where
  "Str [] = Eps"
| "Str (c # cs) = Seq (Lit c) (Str cs)"

definition Plus :: "regex \<Rightarrow> regex" where
  "Plus r = Seq r (Star r)"

definition Opt :: "regex \<Rightarrow> regex" where
  "Opt r = Alt r Eps"

fun Seqs :: "regex list \<Rightarrow> regex" where
  "Seqs [] = Eps"
| "Seqs [r] = r"
| "Seqs (r # rs) = Seq r (Seqs rs)"

fun Alts :: "regex list \<Rightarrow> regex" where
  "Alts [] = Class (\<lambda>_. False)"
| "Alts [r] = r"
| "Alts (r # rs) = Alt r (Alts rs)"

text \<open>The match of \<open>r\<close> that starts at the head of \<open>s\<close>: the matched text and the captures.\<close>

definition match_at :: "regex \<Rightarrow> jsstring \<Rightarrow> (jsstring \<times> captures) option" where
  "match_at r s =
     (case matches r (Map.empty, s) of
        [] \<Rightarrow> None
      | st # _ \<Rightarrow> Some (take (length s - length (snd st)) s, fst st))"

text \<open>\<^verbatim>\<open>s.match(r)\<close> for \<open>r\<close> without the \<^verbatim>\<open>g\<close> flag: the leftmost match, \<open>None\<close> for \<^verbatim>\<open>null\<close>.\<close>

fun str_match :: "regex \<Rightarrow> jsstring \<Rightarrow> (jsstring \<times> captures) option" where
  "str_match r [] = match_at r []"
| "str_match r (c # cs) =
     (case match_at r (c # cs) of Some m \<Rightarrow> Some m | None \<Rightarrow> str_match r cs)"

text \<open>
  \<^verbatim>\<open>s.match(r)\<close> for \<open>r\<close> with the \<^verbatim>\<open>g\<close> flag: the texts of all matches, from left to right,
  each search starting where the last match ended (one code unit further after an empty
  match); \<open>skip\<close> counts the code units still covered by the last match.
\<close>

fun match_all_from :: "regex \<Rightarrow> nat \<Rightarrow> jsstring \<Rightarrow> jsstring list" where
  "match_all_from r skip [] =
     (if skip = 0 then (case match_at r [] of None \<Rightarrow> [] | Some m \<Rightarrow> [fst m]) else [])"
| "match_all_from r skip (c # cs) =
     (if 0 < skip then match_all_from r (skip - 1) cs
      else case match_at r (c # cs) of
             None \<Rightarrow> match_all_from r 0 cs
           | Some m \<Rightarrow> fst m # match_all_from r (length (fst m) - 1) cs)"

definition str_match_g :: "regex \<Rightarrow> jsstring \<Rightarrow> jsstring list option" where
  "str_match_g r s = (case match_all_from r 0 s of [] \<Rightarrow> None | ms \<Rightarrow> Some ms)"

text \<open>\<^verbatim>\<open>x || []\<close> for the result \<open>x\<close> of a match.\<close>

definition or_empty :: "'a list option \<Rightarrow> 'a list" where
  "or_empty x = (case x of None \<Rightarrow> [] | Some ms \<Rightarrow> ms)"

text \<open>\<^verbatim>\<open>s.replace(r, t)\<close> for \<open>r\<close> with the \<^verbatim>\<open>g\<close> flag and a replacement text without \<^verbatim>\<open>$\<close>.\<close>

fun replace_from :: "regex \<Rightarrow> jsstring \<Rightarrow> nat \<Rightarrow> jsstring \<Rightarrow> jsstring" where
  "replace_from r t skip [] =
     (if skip = 0 then (case match_at r [] of None \<Rightarrow> [] | Some m \<Rightarrow> t) else [])"
| "replace_from r t skip (c # cs) =
     (if 0 < skip then replace_from r t (skip - 1) cs
      else case match_at r (c # cs) of
             None \<Rightarrow> c # replace_from r t 0 cs
           | Some m \<Rightarrow> t @ (if fst m = [] then [c] else []) @
                       replace_from r t (length (fst m) - 1) cs)"

definition replace_g :: "jsstring \<Rightarrow> regex \<Rightarrow> jsstring \<Rightarrow> jsstring" where
  "replace_g s r t = replace_from r t 0 s"

text \<open>The character classes \<^verbatim>\<open>.\<close>, \<^verbatim>\<open>\s\<close>, \<^verbatim>\<open>\w\<close> and \<^verbatim>\<open>['"]\<close>.\<close>

definition dot :: "jschar \<Rightarrow> bool" where
  "dot c = (c \<noteq> 0x0A \<and> c \<noteq> 0x0D \<and> c \<noteq> 0x2028 \<and> c \<noteq> 0x2029)"

definition white_space :: "jschar \<Rightarrow> bool" where
  "white_space c =
     (c = 0x09 \<or> c = 0x0A \<or> c = 0x0B \<or> c = 0x0C \<or> c = 0x0D \<or> c = 0x20 \<or> c = 0xA0 \<or>
      c = 0x1680 \<or> (0x2000 \<le> c \<and> c \<le> 0x200A) \<or> c = 0x2028 \<or> c = 0x2029 \<or>
      c = 0x202F \<or> c = 0x205F \<or> c = 0x3000 \<or> c = 0xFEFF)"

definition word_char :: "jschar \<Rightarrow> bool" where
  "word_char c =
     ((0x41 \<le> c \<and> c \<le> 0x5A) \<or> (0x61 \<le> c \<and> c \<le> 0x7A) \<or> (0x30 \<le> c \<and> c \<le> 0x39) \<or>
      c = 0x5F)"

definition quote :: "jschar \<Rightarrow> bool" where
  "quote c = (c = 0x27 \<or> c = 0x22)"

definition not_quote :: "jschar \<Rightarrow> bool" where
  "not_quote c = (\<not> quote c)"

section \<open>The source analyzer\<close>

text \<open>src/scripts/build-registry.js, \<^verbatim>\<open>analyzeComponentFile\<close>.\<close>

datatype error = TypeError | SyntaxError | IOError

record analysis =
  dependencies :: "jsstring list"
  exports :: "jsstring list"
  variants :: "jsstring list"
  sizes :: "jsstring list"
  hasHaptics :: bool
  hasProvider :: bool
  tokenUsage :: "jsstring list"
  checksum :: jsstring

text \<open>\<^verbatim>\<open>/import.*from\s+['"]([^'"]+)['"];?/g\<close>\<close>

definition import_re :: regex where
  "import_re = Seqs [Str (js ''import''), Star (Class dot), Str (js ''from''),
     Plus (Class white_space), Class quote, Group 1 (Plus (Class not_quote)), Class quote,
     Opt (Lit 0x3B)]"

text \<open>\<^verbatim>\<open>/from\s+['"]([^'"]+)['"]/\<close>\<close>

definition from_re :: regex where
  "from_re = Seqs [Str (js ''from''), Plus (Class white_space), Class quote,
     Group 1 (Plus (Class not_quote)), Class quote]"

text \<open>\<^verbatim>\<open>/export\s+(interface|type|function|const)\s+([A-Za-z0-9_]+)/g\<close>\<close>

definition export_re :: regex where
  "export_re = Seqs [Str (js ''export''), Plus (Class white_space),
     Group 1 (Alts [Str (js ''interface''), Str (js ''type''), Str (js ''function''),
                    Str (js ''const'')]),
     Plus (Class white_space), Group 2 (Plus (Class word_char))]"

text \<open>\<^verbatim>\<open>/export\s+(?:interface|type|function|const)\s+([A-Za-z0-9_]+)/\<close>\<close>

definition export_name_re :: regex where
  "export_name_re = Seqs [Str (js ''export''), Plus (Class white_space),
     Alts [Str (js ''interface''), Str (js ''type''), Str (js ''function''), Str (js ''const'')],
     Plus (Class white_space), Group 1 (Plus (Class word_char))]"

text \<open>\<^verbatim>\<open>/['"]([^'"]+)['"]/g\<close> and \<^verbatim>\<open>/['"]/g\<close>\<close>

definition literal_re :: regex where
  "literal_re = Seqs [Class quote, Group 1 (Plus (Class not_quote)), Class quote]"

definition quote_re :: regex where
  "quote_re = Class quote"

text \<open>
  \<^verbatim>\<open>/type\s+\w*Variant\s*=\s*['"][^'"]+['"](?:\s*\|\s*['"][^'"]+['"])*/g\<close>, and the same with
  \<^verbatim>\<open>Size\<close> for \<^verbatim>\<open>Variant\<close>.
\<close>

definition union_type_re :: "jsstring \<Rightarrow> regex" where
  "union_type_re ending = Seqs [Str (js ''type''), Plus (Class white_space),
     Star (Class word_char), Str ending, Star (Class white_space), Lit 0x3D,
     Star (Class white_space), Class quote, Plus (Class not_quote), Class quote,
     Star (Seqs [Star (Class white_space), Lit 0x7C, Star (Class white_space),
                 Class quote, Plus (Class not_quote), Class quote])]"

definition variant_re :: regex where
  "variant_re = union_type_re (js ''Variant'')"

definition size_re :: regex where
  "size_re = union_type_re (js ''Size'')"

text \<open>
  \<^verbatim>\<open>/(?:colors|spacing|radii|borders|typography|iconSizes|opacity|shadows|haptics)\.[\w.\[\]]+/g\<close>
\<close>

definition token_char :: "jschar \<Rightarrow> bool" where
  "token_char c = (word_char c \<or> c = 0x2E \<or> c = 0x5B \<or> c = 0x5D)"

definition token_re :: regex where
  "token_re = Seqs [
     Alts [Str (js ''colors''), Str (js ''spacing''), Str (js ''radii''), Str (js ''borders''),
           Str (js ''typography''), Str (js ''iconSizes''), Str (js ''opacity''),
           Str (js ''shadows''), Str (js ''haptics'')],
     Lit 0x2E, Plus (Class token_char)]"

text \<open>
  The loop over the import statements. \<^verbatim>\<open>packageMatch[1]\<close> is \<^verbatim>\<open>undefined\<close> when the group
  took no part in the match, and \<^verbatim>\<open>pkg.startsWith\<close> then raises a TypeError.
\<close>

fun add_dependencies :: "jsstring list \<Rightarrow> jsstring list \<Rightarrow> error + jsstring list" where
  "add_dependencies deps [] = Inr deps"
| "add_dependencies deps (m # ms) =
     (case str_match from_re m of
        None \<Rightarrow> add_dependencies deps ms
      | Some packageMatch \<Rightarrow>
          (case snd packageMatch 1 of
             None \<Rightarrow> Inl TypeError
           | Some pkg \<Rightarrow>
               if \<not> startsWith pkg (js ''.'') \<and> \<not> startsWith pkg (js ''react-native/'') then
                 if pkg \<noteq> js ''react'' \<and> pkg \<noteq> js ''react-native'' then
                   add_dependencies (Set_add deps pkg) ms
                 else add_dependencies deps ms
               else add_dependencies deps ms))"


text \<open>
  The loop over the export statements. The model has an error where \<^verbatim>\<open>nameMatch[1]\<close> is
  \<^verbatim>\<open>undefined\<close> (the script would add \<^verbatim>\<open>undefined\<close> to the set); the case does not arise.
\<close>

fun add_exports :: "jsstring list \<Rightarrow> jsstring list \<Rightarrow> error + jsstring list" where
  "add_exports exps [] = Inr exps"
| "add_exports exps (m # ms) =
     (case str_match export_name_re m of
        None \<Rightarrow> add_exports exps ms
      | Some nameMatch \<Rightarrow>
          (case snd nameMatch 1 of
             None \<Rightarrow> Inl TypeError
           | Some name \<Rightarrow> add_exports (Set_add exps name) ms))"

text \<open>The loops over the \<^verbatim>\<open>*Variant\<close> and \<^verbatim>\<open>*Size\<close> type aliases.\<close>

definition add_literals :: "jsstring list \<Rightarrow> jsstring list \<Rightarrow> jsstring list" where
  "add_literals acc ms =
     foldl (\<lambda>acc m.
        foldl (\<lambda>acc v. Set_add acc (replace_g v quote_re []))
              acc (or_empty (str_match_g literal_re m)))
        acc ms"

text \<open>
  The digest \<^verbatim>\<open>crypto.createHash('md5').update(text).digest('hex')\<close> belongs to the
  platform; it is the parameter \<open>md5\<close>. The file has been read: \<open>content\<close> is its text.
\<close>

definition analyzeComponentFile :: "(jsstring \<Rightarrow> jsstring) \<Rightarrow> jsstring \<Rightarrow> error + analysis" where
  "analyzeComponentFile md5 content =
     (let importMatches = or_empty (str_match_g import_re content) in
      case add_dependencies [] importMatches of
        Inl e \<Rightarrow> Inl e
      | Inr deps \<Rightarrow>
     (let exportMatches = or_empty (str_match_g export_re content) in
      case add_exports [] exportMatches of
        Inl e \<Rightarrow> Inl e
      | Inr exps \<Rightarrow>
     (let variantTypes = or_empty (str_match_g variant_re content);
          vs = add_literals [] variantTypes;
          sizeTypes = or_empty (str_match_g size_re content);
          ss = add_literals [] sizeTypes;
          tokenMatches = or_empty (str_match_g token_re content)
      in Inr \<lparr> dependencies = deps,
               exports = exps,
               variants = vs,
               sizes = ss,
               hasHaptics = (str_includes content (js ''useHaptics'') \<or>
                             str_includes content (js ''triggerHaptic'')),
               hasProvider = (str_includes content (js ''useTheme'') \<or>
                              str_includes content (js ''useHaptics'')),
               tokenUsage = foldl Set_add [] tokenMatches,
               checksum = md5 content \<rparr>)))"

section \<open>The platform\<close>

text \<open>
  The functions of the JavaScript platform that the scripts call and do not define:
  the MD5 digest in hexadecimal of \<^verbatim>\<open>crypto\<close>, and the case mappings of strings. They are
  parameters of the model.
\<close>

record platform =
  md5 :: "jsstring \<Rightarrow> jsstring"
  toLowerCase :: "jsstring \<Rightarrow> jsstring"
  toUpperCase :: "jsstring \<Rightarrow> jsstring"

text \<open>\<^verbatim>\<open>REGISTRY_CONFIG\<close>; \<^verbatim>\<open>lastUpdated\<close> is the time at which the script was loaded.\<close>

record registry_config =
  baseUrl :: jsstring
  version :: jsstring
  lastUpdated :: jsstring

definition REGISTRY_CONFIG :: "jsstring \<Rightarrow> registry_config" where
  "REGISTRY_CONFIG now =
     \<lparr> baseUrl = js ''https://raw.githubusercontent.com/rncanopy/rncanopy-registry/main'',
       version = js ''1.0.0'',
       lastUpdated = now \<rparr>"

section \<open>The metadata synthesizer\<close>

text \<open>
  src/scripts/build-registry.js, \<^verbatim>\<open>createComponentMetadata\<close>. The two tables are object
  literals: reading a key that the literal does not define finds the property of that
  name of \<^verbatim>\<open>Object.prototype\<close>, when there is one. Those properties are functions and
  objects, which \<^verbatim>\<open>||\<close> takes for true.
\<close>

datatype 'a property = Own 'a | Inherited jsstring

definition Object_prototype :: "jsstring list" where
  "Object_prototype = map js [''constructor'', ''__defineGetter__'', ''__defineSetter__'',
     ''hasOwnProperty'', ''__lookupGetter__'', ''__lookupSetter__'', ''isPrototypeOf'',
     ''propertyIsEnumerable'', ''toString'', ''valueOf'', ''__proto__'', ''toLocaleString'']"

definition get_property :: "(jsstring \<times> 'a) list \<Rightarrow> jsstring \<Rightarrow> 'a property option" where
  "get_property obj k =
     (case map_of obj k of
        Some v \<Rightarrow> Some (Own v)
      | None \<Rightarrow> if k \<in> set Object_prototype then Some (Inherited k) else None)"

definition baseCategories :: "(jsstring \<times> jsstring) list" where
  "baseCategories =
     [(js ''button'', js ''forms''),
      (js ''gradientbutton'', js ''forms''),
      (js ''input'', js ''forms''),
      (js ''switch'', js ''forms''),
      (js ''slider'', js ''forms''),
      (js ''toggle'', js ''forms''),
      (js ''alert'', js ''feedback''),
      (js ''toast'', js ''feedback''),
      (js ''badge'', js ''feedback''),
      (js ''card'', js ''layout''),
      (js ''spinner'', js ''loading'')]"

definition baseDescriptions :: "(jsstring \<times> jsstring) list" where
  "baseDescriptions =
     [(js ''button'',
       js ''Customizable button component with multiple variants, sizes, and loading states''),
      (js ''gradientbutton'',
       js ''Button component with gradient backgrounds and advanced styling''),
      (js ''input'', js ''Text input component with validation states and helper text''),
      (js ''switch'', js ''Toggle control with smooth animations and haptic feedback''),
      (js ''slider'', js ''Range input control with customizable styling''),
      (js ''toggle'', js ''Button-like toggle component with pressed states''),
      (js ''alert'', js ''Inline feedback messages with multiple variants''),
      (js ''toast'', js ''Overlay notifications with positioning and animations''),
      (js ''badge'', js ''Status indicators and labels with multiple variants''),
      (js ''card'', js ''Container component with elevation and customizable styling''),
      (js ''spinner'', js ''Loading indicators with multiple styles and sizes'')]"

record component =
  c_name :: jsstring
  c_displayName :: jsstring
  c_description :: "jsstring property"
  c_category :: "jsstring property"
  c_dependencies :: "jsstring list"
  c_requiredProviders :: "jsstring list"
  c_files :: "jsstring list"
  c_exports :: "jsstring list"
  c_variants :: "jsstring list"
  c_sizes :: "jsstring list"
  c_tokenUsage :: "jsstring list"
  c_hasHaptics :: bool
  c_version :: jsstring
  c_checksum :: jsstring
  c_downloadUrl :: jsstring
  c_metadataUrl :: jsstring

definition createComponentMetadata ::
  "platform \<Rightarrow> registry_config \<Rightarrow> jsstring \<Rightarrow> analysis \<Rightarrow> component" where
  "createComponentMetadata pf cfg componentName a =
     (let normalizedName = toLowerCase pf componentName;
          displayName = toUpperCase pf (take 1 componentName) @ drop 1 componentName;
          requiredProviders = [];
          requiredProviders =
            (if hasHaptics a then requiredProviders @ [js ''HapticsProvider'']
             else requiredProviders);
          requiredProviders =
            (if hasProvider a then requiredProviders @ [js ''ThemeProvider'']
             else requiredProviders)
      in \<lparr> c_name = normalizedName,
           c_displayName =
             (if normalizedName = js ''gradientbutton'' then js ''Gradient Button''
              else displayName),
           c_description =
             (case get_property baseDescriptions normalizedName of
                Some d \<Rightarrow> d
              | None \<Rightarrow> Own (displayName @ js '' component'')),
           c_category =
             (case get_property baseCategories normalizedName of
                Some c \<Rightarrow> c
              | None \<Rightarrow> Own (js ''forms'')),
           c_dependencies = dependencies a,
           c_requiredProviders = requiredProviders,
           c_files = [js ''component.tsx.template''],
           c_exports = exports a,
           c_variants = variants a,
           c_sizes = sizes a,
           c_tokenUsage = tokenUsage a,
           c_hasHaptics = hasHaptics a,
           c_version = version cfg,
           c_checksum = checksum a,
           c_downloadUrl = baseUrl cfg @ js ''/components/'' @ normalizedName @
                           js ''/component.tsx.template'',
           c_metadataUrl = baseUrl cfg @ js ''/components/'' @ normalizedName @
                           js ''/component.json'' \<rparr>)"

text \<open>
  The record of one component, as \<^verbatim>\<open>buildComponentRegistry\<close> makes it from the name and
  the text of the source file: the analysis, then the metadata.
\<close>

definition component_metadata ::
  "platform \<Rightarrow> registry_config \<Rightarrow> jsstring \<Rightarrow> jsstring \<Rightarrow> error + component" where
  "component_metadata pf cfg componentName content =
     (case analyzeComponentFile (md5 pf) content of
        Inl e \<Rightarrow> Inl e
      | Inr a \<Rightarrow> Inr (createComponentMetadata pf cfg componentName a))"

section \<open>Provider and token records\<close>

text \<open>
  src/scripts/build-registry.js: the object \<^verbatim>\<open>providerMetadata\<close> of \<^verbatim>\<open>buildProviderRegistry\<close>
  and the object \<^verbatim>\<open>tokenMetadata\<close> of \<^verbatim>\<open>buildTokenRegistry\<close>.
\<close>

record provider =
  p_name :: jsstring
  p_displayName :: jsstring
  p_description :: jsstring
  p_dependencies :: "jsstring list"
  p_exports :: "jsstring list"
  p_version :: jsstring
  p_checksum :: jsstring
  p_downloadUrl :: jsstring

definition providerMetadata ::
  "platform \<Rightarrow> registry_config \<Rightarrow> jsstring \<Rightarrow> analysis \<Rightarrow> provider" where
  "providerMetadata pf cfg providerName a =
     \<lparr> p_name = toLowerCase pf providerName,
       p_displayName = providerName,
       p_description = providerName @ js '' context provider'',
       p_dependencies = dependencies a,
       p_exports = exports a,
       p_version = version cfg,
       p_checksum = checksum a,
       p_downloadUrl = baseUrl cfg @ js ''/providers/'' @ providerName @ js ''.tsx.template'' \<rparr>"

record token_set =
  t_name :: jsstring
  t_description :: jsstring
  t_version :: jsstring
  t_checksum :: jsstring
  t_downloadUrl :: jsstring

definition tokenMetadata ::
  "platform \<Rightarrow> registry_config \<Rightarrow> jsstring \<Rightarrow> jsstring \<Rightarrow> token_set" where
  "tokenMetadata pf cfg tokenName content =
     \<lparr> t_name = tokenName,
       t_description = tokenName @ js '' design tokens'',
       t_version = version cfg,
       t_checksum = md5 pf content,
       t_downloadUrl = baseUrl cfg @ js ''/tokens/'' @ tokenName @ js ''.ts.template'' \<rparr>"

section \<open>The registry index\<close>

text \<open>
  src/scripts/build-registry.js, the object \<^verbatim>\<open>index\<close> of \<^verbatim>\<open>buildRegistryIndex\<close>.
  \<^verbatim>\<open>sort()\<close> without a comparison function orders strings by their code units; the elements
  sorted here are the pairwise different strings of a \<^verbatim>\<open>Set\<close>.
\<close>

record index_stats =
  is_components :: nat
  is_templates :: nat
  is_providers :: nat
  is_tokens :: nat
  is_totalDependencies :: nat

record index_endpoints =
  ie_components :: jsstring
  ie_templates :: jsstring
  ie_providers :: jsstring
  ie_tokens :: jsstring

record registry_index =
  i_version :: jsstring
  i_lastUpdated :: jsstring
  i_baseUrl :: jsstring
  i_stats :: index_stats
  i_endpoints :: index_endpoints
  i_categories :: "jsstring property list"
  i_dependencies :: "jsstring list"

definition flatMap :: "('a \<Rightarrow> 'b list) \<Rightarrow> 'a list \<Rightarrow> 'b list" where
  "flatMap f xs = concat (map f xs)"

definition index_object ::
  "registry_config \<Rightarrow> component list \<Rightarrow> 'a list \<Rightarrow> 'b list \<Rightarrow> 'c list \<Rightarrow> registry_index" where
  "index_object cfg components templates providers tokens =
     \<lparr> i_version = version cfg,
       i_lastUpdated = lastUpdated cfg,
       i_baseUrl = baseUrl cfg,
       i_stats =
         \<lparr> is_components = length components,
           is_templates = length templates,
           is_providers = length providers,
           is_tokens = length tokens,
           is_totalDependencies = length (new_Set (flatMap c_dependencies components)) \<rparr>,
       i_endpoints =
         \<lparr> ie_components = baseUrl cfg @ js ''/api/components.json'',
           ie_templates = baseUrl cfg @ js ''/api/templates.json'',
           ie_providers = baseUrl cfg @ js ''/api/providers.json'',
           ie_tokens = baseUrl cfg @ js ''/api/tokens.json'' \<rparr>,
       i_categories = new_Set (map c_category components),
       i_dependencies = sort (new_Set (flatMap c_dependencies components)) \<rparr>"

section \<open>JSON values, the file system and the console\<close>

text \<open>
  A value that \<^verbatim>\<open>JSON.parse\<close> returns. A number is its IEEE 754 double, as the 64 bits of
  it. An object is the list of its properties in the order of \<^verbatim>\<open>Object.keys\<close>; of two
  entries with one key the first is the property.
\<close>

datatype json =
    JNull
  | JBool bool
  | JNum "64 word"
  | JStr jsstring
  | JArr "json list"
  | JObj "(jsstring \<times> json) list"

text \<open>
  The truth value of a value or of \<^verbatim>\<open>undefined\<close> (\<open>None\<close>): false for \<^verbatim>\<open>undefined\<close>, \<^verbatim>\<open>null\<close>,
  \<^verbatim>\<open>false\<close>, the two zeros, NaN and the empty string.
\<close>

fun truthy :: "json option \<Rightarrow> bool" where
  "truthy None = False"
| "truthy (Some JNull) = False"
| "truthy (Some (JBool b)) = b"
| "truthy (Some (JNum n)) = (take_bit 63 n \<noteq> 0 \<and> take_bit 63 n \<le> 0x7FF0000000000000)"
| "truthy (Some (JStr s)) = (s \<noteq> [])"
| "truthy (Some (JArr xs)) = True"
| "truthy (Some (JObj kvs)) = True"

text \<open>
  \<^verbatim>\<open>v.k\<close> for the keys \<open>k\<close> that the scripts read (none of them names a property of a
  prototype or of a string or array): a TypeError on \<^verbatim>\<open>undefined\<close> and \<^verbatim>\<open>null\<close>.
\<close>

fun get :: "json option \<Rightarrow> jsstring \<Rightarrow> error + json option" where
  "get None k = Inl TypeError"
| "get (Some JNull) k = Inl TypeError"
| "get (Some (JObj kvs)) k = Inr (map_of kvs k)"
| "get (Some v) k = Inr None"

text \<open>
  \<^verbatim>\<open>v.hasOwnProperty(k)\<close>, for the same keys. An object with a property of its own that
  is named \<^verbatim>\<open>hasOwnProperty\<close> hides the method: the property is a JSON value and no function,
  and the call raises a TypeError.
\<close>

fun hasOwnProperty :: "json \<Rightarrow> jsstring \<Rightarrow> error + bool" where
  "hasOwnProperty JNull k = Inl TypeError"
| "hasOwnProperty (JObj kvs) k =
     (if map_of kvs (js ''hasOwnProperty'') \<noteq> None then Inl TypeError
      else Inr (map_of kvs k \<noteq> None))"
| "hasOwnProperty v k = Inr False"

text \<open>\<^verbatim>\<open>s.replace(p, t)\<close> for a string \<open>p\<close>: the first occurrence is replaced.\<close>

fun replace_first :: "jsstring \<Rightarrow> jsstring \<Rightarrow> jsstring \<Rightarrow> jsstring" where
  "replace_first [] p t = (if p = [] then t else [])"
| "replace_first (c # cs) p t =
     (if prefix p (c # cs) then t @ drop (length p) (c # cs) else c # replace_first cs p t)"

text \<open>
  The console: each line is the level, the text of the message and the values put into it.
\<close>

datatype level = Log | Warn | Err

datatype arg = S jsstring | N nat | J "json option" | E error

type_synonym line = "level \<times> string \<times> arg list"

text \<open>
  The file system: the text of each regular file and the entries of each directory, by
  path. The listing of a directory is read at the start of a build, before the build
  writes; a write does not change it. \<open>written\<close> keeps the writes that were done, in
  order: the path and the text of each.
\<close>

record world =
  files :: "jsstring \<Rightarrow> jsstring option"
  dirs :: "jsstring \<Rightarrow> jsstring list option"
  written :: "(jsstring \<times> jsstring) list"
  console :: "line list"

definition console_write :: "level \<Rightarrow> string \<Rightarrow> arg list \<Rightarrow> world \<Rightarrow> world" where
  "console_write l m args w = w\<lparr>console := console w @ [(l, m, args)]\<rparr>"

definition existsSync :: "world \<Rightarrow> jsstring \<Rightarrow> bool" where
  "existsSync w p = (files w p \<noteq> None \<or> dirs w p \<noteq> None)"

definition mkdirSync :: "world \<Rightarrow> jsstring \<Rightarrow> world" where
  "mkdirSync w p = (if dirs w p = None then w\<lparr>dirs := (dirs w)(p \<mapsto> [])\<rparr> else w)"

definition readdirSync :: "world \<Rightarrow> jsstring \<Rightarrow> error + jsstring list" where
  "readdirSync w p = (case dirs w p of None \<Rightarrow> Inl IOError | Some names \<Rightarrow> Inr names)"

definition isDirectory :: "world \<Rightarrow> jsstring \<Rightarrow> bool" where
  "isDirectory w p = (dirs w p \<noteq> None)"

definition readFileSync :: "world \<Rightarrow> jsstring \<Rightarrow> error + jsstring" where
  "readFileSync w p = (case files w p of None \<Rightarrow> Inl IOError | Some content \<Rightarrow> Inr content)"

section \<open>The template processor\<close>

text \<open>src/scripts/build-registry.js, \<^verbatim>\<open>buildTemplateRegistry\<close>.\<close>

record token_file =
  tf_type :: jsstring
  tf_url :: jsstring
  tf_checksum :: jsstring

record template_metadata =
  tm_name :: "json option"
  tm_displayName :: "json option"
  tm_description :: "json option"
  tm_author :: "json option"
  tm_version :: "json option"
  tm_lastUpdated :: jsstring
  tm_personality :: "json option"
  tm_preview :: "json option"
  tm_tokenFiles :: "token_file list"
  tm_templateUrl :: jsstring
  tm_metadataUrl :: jsstring
  tm_checksum :: jsstring

record templates_stats =
  ts_totalTemplates :: nat
  ts_availableThemes :: "json option list"
  ts_tokenTypes :: "jsstring list"
  ts_personalities :: "jsstring list"

record templates_api =
  ta_version :: jsstring
  ta_lastUpdated :: jsstring
  ta_baseUrl :: jsstring
  ta_templates :: "template_metadata list"
  ta_stats :: templates_stats

text \<open>What the scripts hand to \<^verbatim>\<open>JSON.stringify(_, null, 2)\<close>.\<close>

datatype document =
    Value json
  | Component_document component
  | Template_document template_metadata
  | Templates_api_document templates_api
  | Index_document registry_index

text \<open>
  The functions of Node.js that the scripts call: \<^verbatim>\<open>path.join\<close>, \<^verbatim>\<open>path.dirname\<close>, the
  directory \<^verbatim>\<open>__dirname\<close> of the scripts, \<^verbatim>\<open>JSON.parse\<close> (\<open>None\<close> for a SyntaxError),
  \<^verbatim>\<open>JSON.stringify(v)\<close>, \<^verbatim>\<open>JSON.stringify(v, null, 2)\<close> and the conversion of a value to a
  string in a template literal. They are parameters of the model.
\<close>

record node =
  path_join :: "jsstring list \<Rightarrow> jsstring"
  path_dirname :: "jsstring \<Rightarrow> jsstring"
  script_dir :: jsstring
  JSON_parse :: "jsstring \<Rightarrow> json option"
  JSON_stringify :: "json \<Rightarrow> jsstring"
  JSON_stringify_2 :: "document \<Rightarrow> jsstring"
  String_of :: "json option \<Rightarrow> jsstring"

definition REGISTRY_PATH :: "node \<Rightarrow> jsstring" where
  "REGISTRY_PATH nd = path_join nd [script_dir nd, js ''..'']"

definition EXPO_PATH :: "node \<Rightarrow> jsstring" where
  "EXPO_PATH nd = path_join nd [script_dir nd, js ''../..'']"

text \<open>
  \<^verbatim>\<open>fs.writeFileSync\<close> fails when the directory of the path is missing or the path is a
  directory.
\<close>

definition writeFileSync :: "node \<Rightarrow> world \<Rightarrow> jsstring \<Rightarrow> jsstring \<Rightarrow> error + world" where
  "writeFileSync nd w p content =
     (if dirs w (path_dirname nd p) = None \<or> dirs w p \<noteq> None then Inl IOError
      else Inr (w\<lparr>files := (files w)(p \<mapsto> content), written := written w @ [(p, content)]\<rparr>))"

text \<open>
  The token groups of a template definition that passes the check
  \<^verbatim>\<open>template.tokens && template.tokens.colors\<close>, \<open>None\<close> when the check fails. Of a value
  \<^verbatim>\<open>tokens\<close> that is no object, either the value is false or its \<^verbatim>\<open>colors\<close> is \<^verbatim>\<open>undefined\<close>.
\<close>

definition checked_tokens :: "json \<Rightarrow> error + (jsstring \<times> json) list option" where
  "checked_tokens template =
     (case get (Some template) (js ''tokens'') of
        Inl e \<Rightarrow> Inl e
      | Inr tokens \<Rightarrow>
          (case tokens of
             Some (JObj kvs) \<Rightarrow>
               if truthy (map_of kvs (js ''colors'')) then Inr (Some kvs) else Inr None
           | _ \<Rightarrow> Inr None))"

text \<open>
  The loop that writes the token files. \<^verbatim>\<open>JSON.stringify\<close> of \<^verbatim>\<open>undefined\<close> is \<^verbatim>\<open>undefined\<close>,
  which \<^verbatim>\<open>writeFileSync\<close> and the digest refuse with a TypeError.
\<close>

fun write_token_files ::
  "node \<Rightarrow> jsstring \<Rightarrow> (jsstring \<times> json) list \<Rightarrow> jsstring list \<Rightarrow> jsstring list \<Rightarrow> world \<Rightarrow>
   (error + jsstring list) \<times> world" where
  "write_token_files nd templateDir tokens [] generatedFiles w = (Inr generatedFiles, w)"
| "write_token_files nd templateDir tokens (tokenType # rest) generatedFiles w =
     (let tokenFile = tokenType @ js ''.json'';
          tokenPath = path_join nd [templateDir, tokenFile]
      in case map_of tokens tokenType of
           None \<Rightarrow> (Inl TypeError, w)
         | Some tokenData \<Rightarrow>
             (case writeFileSync nd w tokenPath (JSON_stringify_2 nd (Value tokenData)) of
                Inl e \<Rightarrow> (Inl e, w)
              | Inr w' \<Rightarrow>
                  write_token_files nd templateDir tokens rest (generatedFiles @ [tokenFile]) w'))"

fun token_file_entries ::
  "platform \<Rightarrow> node \<Rightarrow> registry_config \<Rightarrow> jsstring \<Rightarrow> (jsstring \<times> json) list \<Rightarrow> jsstring list \<Rightarrow>
   error + token_file list" where
  "token_file_entries pf nd cfg templateName tokens [] = Inr []"
| "token_file_entries pf nd cfg templateName tokens (file # rest) =
     (case map_of tokens (replace_first file (js ''.json'') []) of
        None \<Rightarrow> Inl TypeError
      | Some tokenData \<Rightarrow>
          (case token_file_entries pf nd cfg templateName tokens rest of
             Inl e \<Rightarrow> Inl e
           | Inr entries \<Rightarrow>
               Inr (\<lparr> tf_type = replace_first file (js ''.json'') [],
                      tf_url = baseUrl cfg @ js ''/templates/'' @ templateName @ js ''/'' @ file,
                      tf_checksum = md5 pf (JSON_stringify nd tokenData) \<rparr> # entries)))"

text \<open>The object \<^verbatim>\<open>templateMetadata\<close>.\<close>

definition field :: "json \<Rightarrow> string \<Rightarrow> json option" where
  "field template k = (case get (Some template) (js k) of Inl e \<Rightarrow> None | Inr v \<Rightarrow> v)"

definition templateMetadata_object ::
  "platform \<Rightarrow> node \<Rightarrow> registry_config \<Rightarrow> jsstring \<Rightarrow> json \<Rightarrow> token_file list \<Rightarrow>
   template_metadata" where
  "templateMetadata_object pf nd cfg templateName template tokenFiles =
     \<lparr> tm_name = field template ''name'',
       tm_displayName = field template ''displayName'',
       tm_description = field template ''description'',
       tm_author = field template ''author'',
       tm_version = field template ''version'',
       tm_lastUpdated = lastUpdated cfg,
       tm_personality = field template ''personality'',
       tm_preview = field template ''preview'',
       tm_tokenFiles = tokenFiles,
       tm_templateUrl = baseUrl cfg @ js ''/templates/'' @ templateName @ js ''/template.json'',
       tm_metadataUrl = baseUrl cfg @ js ''/templates/'' @ templateName @ js ''/metadata.json'',
       tm_checksum = md5 pf (JSON_stringify nd template) \<rparr>"

text \<open>
  The body of the \<^verbatim>\<open>try\<close> for one template directory, in two parts: \<open>generate_template\<close> is
  the part after the check of the definition, \<open>process_template\<close> the whole. The result is
  \<open>Inr None\<close> when the function returns at the check, \<open>Inr (Some m)\<close> when it has pushed the
  record \<open>m\<close>, \<open>Inl e\<close> when it raises. The definition that has passed the check is an
  object, so that reading its fields does not raise.
\<close>

definition generate_template ::
  "platform \<Rightarrow> node \<Rightarrow> registry_config \<Rightarrow> jsstring \<Rightarrow> jsstring \<Rightarrow> json \<Rightarrow>
   (jsstring \<times> json) list \<Rightarrow> world \<Rightarrow> (error + template_metadata option) \<times> world" where
  "generate_template pf nd cfg templateDir templateName template tokens w =
     (case write_token_files nd templateDir tokens (new_Set (map fst tokens)) [] w of
        (Inl e, w1) \<Rightarrow> (Inl e, w1)
      | (Inr generatedFiles, w1) \<Rightarrow>
     (case token_file_entries pf nd cfg templateName tokens generatedFiles of
        Inl e \<Rightarrow> (Inl e, w1)
      | Inr tokenFiles \<Rightarrow>
     (case writeFileSync nd w1 (path_join nd [templateDir, js ''metadata.json''])
             (JSON_stringify_2 nd (Template_document
                (templateMetadata_object pf nd cfg templateName template tokenFiles))) of
        Inl e \<Rightarrow> (Inl e, w1)
      | Inr w2 \<Rightarrow>
          (Inr (Some (templateMetadata_object pf nd cfg templateName template tokenFiles)),
           console_write Log ''Template done''
             [J (field template ''displayName''), N (length generatedFiles)] w2))))"

definition process_template ::
  "platform \<Rightarrow> node \<Rightarrow> registry_config \<Rightarrow> jsstring \<Rightarrow> jsstring \<Rightarrow> world \<Rightarrow>
   (error + template_metadata option) \<times> world" where
  "process_template pf nd cfg templatesDir templateName w0 =
     (let templateDir = path_join nd [templatesDir, templateName];
          templatePath = path_join nd [templateDir, js ''template.json''];
          w = console_write Log ''Processing template'' [S templateName] w0
      in case readFileSync w templatePath of
           Inl e \<Rightarrow> (Inl e, w)
         | Inr content \<Rightarrow>
      (case JSON_parse nd content of
           None \<Rightarrow> (Inl SyntaxError, w)
         | Some template \<Rightarrow>
      (case checked_tokens template of
           Inl e \<Rightarrow> (Inl e, w)
         | Inr None \<Rightarrow>
             (Inr None,
              console_write Warn ''Template missing required tokens.colors'' [S templateName] w)
         | Inr (Some tokens) \<Rightarrow>
             generate_template pf nd cfg templateDir templateName template tokens w)))"

text \<open>One round of the \<^verbatim>\<open>forEach\<close>: the \<^verbatim>\<open>try\<close> with its \<^verbatim>\<open>catch\<close>.\<close>

definition template_round ::
  "platform \<Rightarrow> node \<Rightarrow> registry_config \<Rightarrow> jsstring \<Rightarrow>
   template_metadata list \<times> world \<Rightarrow> jsstring \<Rightarrow> template_metadata list \<times> world" where
  "template_round pf nd cfg templatesDir st templateName =
     (case process_template pf nd cfg templatesDir templateName (snd st) of
        (Inl e, w) \<Rightarrow>
          (fst st, console_write Err ''Error processing template'' [S templateName, E e] w)
      | (Inr None, w) \<Rightarrow> (fst st, w)
      | (Inr (Some templateMetadata), w) \<Rightarrow> (fst st @ [templateMetadata], w))"

text \<open>
  The \<^verbatim>\<open>personalities\<close> of the statistics; reading \<^verbatim>\<open>t.personality.mood\<close> raises a TypeError
  when the record has no \<^verbatim>\<open>personality\<close>.
\<close>

fun personalities :: "node \<Rightarrow> template_metadata list \<Rightarrow> error + jsstring list" where
  "personalities nd [] = Inr []"
| "personalities nd (t # ts) =
     (case get (tm_personality t) (js ''mood'') of
        Inl e \<Rightarrow> Inl e
      | Inr mood \<Rightarrow>
     (case get (tm_personality t) (js ''spacing'') of
        Inl e \<Rightarrow> Inl e
      | Inr spacing \<Rightarrow>
     (case get (tm_personality t) (js ''roundness'') of
        Inl e \<Rightarrow> Inl e
      | Inr roundness \<Rightarrow>
     (case personalities nd ts of
        Inl e \<Rightarrow> Inl e
      | Inr ps \<Rightarrow>
          Inr ((String_of nd mood @ js ''-'' @ String_of nd spacing @ js ''-'' @
                String_of nd roundness) # ps)))))"

definition templates_api_object ::
  "node \<Rightarrow> registry_config \<Rightarrow> template_metadata list \<Rightarrow> error + templates_api" where
  "templates_api_object nd cfg templates =
     (case personalities nd templates of
        Inl e \<Rightarrow> Inl e
      | Inr ps \<Rightarrow>
          Inr \<lparr> ta_version = version cfg,
                ta_lastUpdated = lastUpdated cfg,
                ta_baseUrl = baseUrl cfg,
                ta_templates = templates,
                ta_stats =
                  \<lparr> ts_totalTemplates = length templates,
                    ts_availableThemes = map tm_name templates,
                    ts_tokenTypes =
                      (if 0 < length templates
                       then map tf_type (tm_tokenFiles (hd templates)) else []),
                    ts_personalities = new_Set ps \<rparr> \<rparr>)"

definition buildTemplateRegistry ::
  "platform \<Rightarrow> node \<Rightarrow> registry_config \<Rightarrow> world \<Rightarrow>
   (error + template_metadata list) \<times> world" where
  "buildTemplateRegistry pf nd cfg w0 =
     (let w = console_write Log ''Building comprehensive template registry...'' [] w0;
          templatesDir = path_join nd [REGISTRY_PATH nd, js ''templates'']
      in if \<not> existsSync w templatesDir then
           (Inr [], console_write Log ''Created templates directory'' []
                      (mkdirSync w templatesDir))
         else
           case readdirSync w templatesDir of
             Inl e \<Rightarrow> (Inl e, w)
           | Inr entries \<Rightarrow>
          (let templateDirs =
                 filter (\<lambda>dir. existsSync w (path_join nd [templatesDir, dir, js ''template.json'']))
                   (filter (\<lambda>dir. isDirectory w (path_join nd [templatesDir, dir])) entries);
               (templates, w1) =
                 foldl (template_round pf nd cfg templatesDir) ([], w) templateDirs
           in case templates_api_object nd cfg templates of
                Inl e \<Rightarrow> (Inl e, w1)
              | Inr api \<Rightarrow>
                  (case writeFileSync nd w1 (path_join nd [REGISTRY_PATH nd, js ''api/templates.json''])
                          (JSON_stringify_2 nd (Templates_api_document api)) of
                     Inl e \<Rightarrow> (Inl e, w1)
                   | Inr w2 \<Rightarrow>
                       (Inr templates,
                        console_write Log ''Generated templates'' [N (length templates)] w2))))"

section \<open>The integrity validator\<close>

text \<open>
  src/scripts/validate-registry.js, \<^verbatim>\<open>validateComponents\<close>. \<^verbatim>\<open>path.join\<close> raises a TypeError
  when an argument is not a string.
\<close>

definition requiredFields :: "string list" where
  "requiredFields = [''name'', ''displayName'', ''description'', ''category'', ''dependencies'',
     ''exports'', ''version'']"

text \<open>\<^verbatim>\<open>component.name || 'unknown'\<close>\<close>

definition name_or_unknown :: "json \<Rightarrow> json option" where
  "name_or_unknown component =
     (if truthy (field component ''name'') then field component ''name''
      else Some (JStr (js ''unknown'')))"

fun check_fields :: "json \<Rightarrow> string list \<Rightarrow> bool \<times> world \<Rightarrow> (error + bool) \<times> world" where
  "check_fields component [] (isValid, w) = (Inr isValid, w)"
| "check_fields component (f # fs) (isValid, w) =
     (case hasOwnProperty component (js f) of
        Inl e \<Rightarrow> (Inl e, w)
      | Inr True \<Rightarrow> check_fields component fs (isValid, w)
      | Inr False \<Rightarrow>
          check_fields component fs
            (False, console_write Err ''Component missing field''
                      [J (name_or_unknown component), S (js f)] w))"

definition check_files :: "node \<Rightarrow> jsstring \<Rightarrow> bool \<times> world \<Rightarrow> bool \<times> world" where
  "check_files nd name st =
     (let componentDir = path_join nd [REGISTRY_PATH nd, js ''components'', name]
      in if \<not> existsSync (snd st) componentDir then
           (False, console_write Err ''Component directory missing'' [S name] (snd st))
         else
           (let templateFile = path_join nd [componentDir, js ''component.tsx.template''];
                metadataFile = path_join nd [componentDir, js ''component.json''];
                st1 = (if \<not> existsSync (snd st) templateFile then
                         (False, console_write Err ''Component template missing'' [S name] (snd st))
                       else st);
                st2 = (if \<not> existsSync (snd st1) metadataFile then
                         (False, console_write Err ''Component metadata missing'' [S name] (snd st1))
                       else st1)
            in st2))"

text \<open>The body of the \<^verbatim>\<open>forEach\<close> for one record.\<close>

definition validate_component ::
  "node \<Rightarrow> json \<Rightarrow> bool \<times> world \<Rightarrow> (error + bool) \<times> world" where
  "validate_component nd component st =
     (case check_fields component requiredFields st of
        (Inl e, w1) \<Rightarrow> (Inl e, w1)
      | (Inr v1, w1) \<Rightarrow>
          (case get (Some component) (js ''name'') of
             Inl e \<Rightarrow> (Inl e, w1)
           | Inr (Some (JStr name)) \<Rightarrow>
               (let st2 = check_files nd name (v1, w1)
                in (Inr (fst st2),
                    if fst st2 then console_write Log ''Component valid'' [S name] (snd st2)
                    else snd st2))
           | Inr _ \<Rightarrow> (Inl TypeError, w1)))"

fun validate_all :: "node \<Rightarrow> json list \<Rightarrow> bool \<times> world \<Rightarrow> (error + bool) \<times> world" where
  "validate_all nd [] (isValid, w) = (Inr isValid, w)"
| "validate_all nd (component # rest) (isValid, w) =
     (case validate_component nd component (isValid, w) of
        (Inl e, w1) \<Rightarrow> (Inl e, w1)
      | (Inr v, w1) \<Rightarrow> validate_all nd rest (v, w1))"

text \<open>The body of the \<^verbatim>\<open>try\<close>, and the function with its \<^verbatim>\<open>catch\<close>.\<close>

definition validate_components_body :: "node \<Rightarrow> jsstring \<Rightarrow> world \<Rightarrow> (error + bool) \<times> world" where
  "validate_components_body nd componentsPath w =
     (case readFileSync w componentsPath of
        Inl e \<Rightarrow> (Inl e, w)
      | Inr content \<Rightarrow>
     (case JSON_parse nd content of
        None \<Rightarrow> (Inl SyntaxError, w)
      | Some componentsData \<Rightarrow>
     (case get (Some componentsData) (js ''components'') of
        Inl e \<Rightarrow> (Inl e, w)
      | Inr cs \<Rightarrow>
     (case (if truthy cs then cs else Some componentsData) of
        Some (JArr components) \<Rightarrow>
          (case validate_all nd components (True, w) of
             (Inl e, w1) \<Rightarrow> (Inl e, w1)
           | (Inr isValid, w1) \<Rightarrow>
               (Inr isValid, console_write Log ''Total components'' [N (length components)] w1))
      | _ \<Rightarrow> (Inr False, console_write Err ''Components data is not an array'' [] w)))))"

definition validateComponents :: "node \<Rightarrow> world \<Rightarrow> bool \<times> world" where
  "validateComponents nd w0 =
     (let w = console_write Log ''Validating components...'' [] w0;
          componentsPath = path_join nd [REGISTRY_PATH nd, js ''api/components.json'']
      in if \<not> existsSync w componentsPath then
           (False, console_write Err ''Components API file missing'' [] w)
         else
           case validate_components_body nd componentsPath w of
             (Inl e, w1) \<Rightarrow> (False, console_write Err ''Error validating components'' [E e] w1)
           | (Inr isValid, w1) \<Rightarrow> (isValid, w1))"

section \<open>Notions of the specification\<close>

text \<open>
  The name of a record that is an object with a string as its \<^verbatim>\<open>name\<close>; the array of
  records that the validator reads from \<^verbatim>\<open>api/components.json\<close>; the lines of the level
  of errors of a console; and the defects of one record: its missing fields, then its
  missing directory or files.
\<close>

definition component_name :: "json \<Rightarrow> jsstring option" where
  "component_name component =
     (case component of
        JObj kvs \<Rightarrow> (case map_of kvs (js ''name'') of Some (JStr name) \<Rightarrow> Some name | _ \<Rightarrow> None)
      | _ \<Rightarrow> None)"

definition listed_components :: "node \<Rightarrow> world \<Rightarrow> json list option" where
  "listed_components nd w =
     (case files w (path_join nd [REGISTRY_PATH nd, js ''api/components.json'']) of
        None \<Rightarrow> None
      | Some content \<Rightarrow>
          (case JSON_parse nd content of
             Some (JObj kvs) \<Rightarrow>
               (case map_of kvs (js ''components'') of
                  Some (JArr components) \<Rightarrow> Some components
                | _ \<Rightarrow> None)
           | Some (JArr components) \<Rightarrow> Some components
           | _ \<Rightarrow> None))"

definition errors :: "line list \<Rightarrow> line list" where
  "errors ls = filter (\<lambda>l. fst l = Err) ls"

definition field_defects :: "json \<Rightarrow> line list" where
  "field_defects component =
     map (\<lambda>f. (Err, ''Component missing field'', [J (name_or_unknown component), S (js f)]))
       (filter (\<lambda>f. hasOwnProperty component (js f) = Inr False) requiredFields)"

definition file_defects :: "node \<Rightarrow> world \<Rightarrow> jsstring \<Rightarrow> line list" where
  "file_defects nd w name =
     (let componentDir = path_join nd [REGISTRY_PATH nd, js ''components'', name]
      in if \<not> existsSync w componentDir then
           [(Err, ''Component directory missing'', [S name])]
         else
           (if \<not> existsSync w (path_join nd [componentDir, js ''component.tsx.template''])
            then [(Err, ''Component template missing'', [S name])] else []) @
           (if \<not> existsSync w (path_join nd [componentDir, js ''component.json''])
            then [(Err, ''Component metadata missing'', [S name])] else []))"

definition defects :: "node \<Rightarrow> world \<Rightarrow> json \<Rightarrow> line list" where
  "defects nd w component =
     field_defects component @
     (case component_name component of None \<Rightarrow> [] | Some name \<Rightarrow> file_defects nd w name)"

text \<open>The paths at which the validator looks for a record.\<close>

definition checked_paths :: "node \<Rightarrow> json \<Rightarrow> jsstring set" where
  "checked_paths nd component =
     (case component_name component of
        None \<Rightarrow> {}
      | Some name \<Rightarrow>
          {path_join nd [REGISTRY_PATH nd, js ''components'', name],
           path_join nd [path_join nd [REGISTRY_PATH nd, js ''components'', name],
                         js ''component.tsx.template''],
           path_join nd [path_join nd [REGISTRY_PATH nd, js ''components'', name],
                         js ''component.json'']})"

text \<open>
  A record of the documented shape, as far as the validator depends on it: an object with
  a string as its \<^verbatim>\<open>name\<close> and without a property of its own that is named
  \<^verbatim>\<open>hasOwnProperty\<close>.
\<close>

definition plain_record :: "json \<Rightarrow> bool" where
  "plain_record component =
     (case component of
        JObj kvs \<Rightarrow>
          map_of kvs (js ''hasOwnProperty'') = None \<and>
          (case map_of kvs (js ''name'') of Some (JStr name) \<Rightarrow> True | _ \<Rightarrow> False)
      | _ \<Rightarrow> False)"

text \<open>A digest in hexadecimal of the length of MD5: 32 digits, the letters in lower case.\<close>

definition hex_digit :: "jschar \<Rightarrow> bool" where
  "hex_digit c = ((0x30 \<le> c \<and> c \<le> 0x39) \<or> (0x61 \<le> c \<and> c \<le> 0x66))"

definition hex_digest :: "jsstring \<Rightarrow> bool" where
  "hex_digest d = (length d = 32 \<and> list_all hex_digit d)"

text \<open>The entry \<^verbatim>\<open>tokens.colors\<close> of a template definition with the properties \<open>kvs\<close>.\<close>

definition tokens_colors :: "(jsstring \<times> json) list \<Rightarrow> json option" where
  "tokens_colors kvs =
     (case map_of kvs (js ''tokens'') of
        Some (JObj tokens) \<Rightarrow> map_of tokens (js ''colors'')
      | _ \<Rightarrow> None)"

text \<open>Two worlds with the same file system: they differ in the console at most.\<close>

definition same_fs :: "world \<Rightarrow> world \<Rightarrow> bool" where
  "same_fs w w' = (files w = files w' \<and> dirs w = dirs w' \<and> written w = written w')"






section \<open>A platform for the examples\<close>

text \<open>
  The case mappings on the letters of ASCII, where they are those of the platform; the
  digest of the examples is a stand-in that tells any two texts apart.
\<close>

definition ascii_lower :: "jsstring \<Rightarrow> jsstring" where
  "ascii_lower s = map (\<lambda>c. if 0x41 \<le> c \<and> c \<le> 0x5A then c + 0x20 else c) s"

definition ascii_upper :: "jsstring \<Rightarrow> jsstring" where
  "ascii_upper s = map (\<lambda>c. if 0x61 \<le> c \<and> c \<le> 0x7A then c - 0x20 else c) s"

definition example_platform :: platform where
  "example_platform =
     \<lparr> md5 = (\<lambda>s. js ''md5:'' @ s), toLowerCase = ascii_lower, toUpperCase = ascii_upper \<rparr>"

definition example_config :: registry_config where
  "example_config = REGISTRY_CONFIG (js ''2025-01-01T00:00:00.000Z'')"

text \<open>
  Stand-ins for the functions of Node.js in the examples: paths joined with a slash, and
  the two serializations of a value made of objects, arrays and strings that need no
  escape, which are those of \<^verbatim>\<open>JSON.stringify\<close>.
\<close>

fun example_join :: "jsstring list \<Rightarrow> jsstring" where
  "example_join [] = js ''.''"
| "example_join [p] = p"
| "example_join (p # ps) = p @ js ''/'' @ example_join ps"

fun commas :: "jsstring \<Rightarrow> jsstring list \<Rightarrow> jsstring" where
  "commas sep [] = []"
| "commas sep [x] = x"
| "commas sep (x # xs) = x @ sep @ commas sep xs"

fun compact :: "json \<Rightarrow> jsstring" where
  "compact JNull = js ''null''"
| "compact (JBool b) = (if b then js ''true'' else js ''false'')"
| "compact (JNum n) = js ''0''"
| "compact (JStr s) = [0x22] @ s @ [0x22]"
| "compact (JArr xs) = js ''['' @ commas (js '','') (map compact xs) @ js '']''"
| "compact (JObj kvs) =
     js ''{'' @ commas (js '','') (map (\<lambda>(k, v). [0x22] @ k @ [0x22] @ js '':'' @ compact v) kvs) @
     js ''}''"

fun indented :: "nat \<Rightarrow> json \<Rightarrow> jsstring" where
  "indented n JNull = js ''null''"
| "indented n (JBool b) = (if b then js ''true'' else js ''false'')"
| "indented n (JNum x) = js ''0''"
| "indented n (JStr s) = [0x22] @ s @ [0x22]"
| "indented n (JArr xs) =
     (if xs = [] then js ''[]''
      else js ''['' @ [0x0A] @ replicate (n + 2) 0x20 @
           commas (js '','' @ [0x0A] @ replicate (n + 2) 0x20) (map (indented (n + 2)) xs) @
           [0x0A] @ replicate n 0x20 @ js '']'')"
| "indented n (JObj kvs) =
     (if kvs = [] then js ''{}''
      else js ''{'' @ [0x0A] @ replicate (n + 2) 0x20 @
           commas (js '','' @ [0x0A] @ replicate (n + 2) 0x20)
             (map (\<lambda>(k, v). [0x22] @ k @ [0x22] @ js '': '' @ indented (n + 2) v) kvs) @
           [0x0A] @ replicate n 0x20 @ js ''}'')"

text \<open>
  Three template definitions as texts, with the values that \<^verbatim>\<open>JSON.parse\<close> gives for them:
  one without tokens, one with the colors, and one with two odd names of groups.
\<close>

definition example_documents :: "(jsstring \<times> json) list" where
  "example_documents =
     [(js ''{}'', JObj []),
      (js ''{\"tokens\":{\"colors\":{\"primary\":\"#fff\"}}}'',
       JObj [(js ''tokens'', JObj [(js ''colors'', JObj [(js ''primary'', JStr (js ''#fff''))])])]),
      (js ''{\"tokens\":{\"colors\":\"c\",\"a.jsonb\":\"x\",\"ab.json\":\"y\"}}'',
       JObj [(js ''tokens'', JObj [(js ''colors'', JStr (js ''c'')),
                                  (js ''a.jsonb'', JStr (js ''x'')),
                                  (js ''ab.json'', JStr (js ''y''))])])]"

definition example_node :: node where
  "example_node =
     \<lparr> path_join = example_join,
       path_dirname = (\<lambda>p. js ''/registry''),
       script_dir = js ''/registry/scripts'',
       JSON_parse = map_of example_documents,
       JSON_stringify = compact,
       JSON_stringify_2 = (\<lambda>d. case d of Value v \<Rightarrow> indented 0 v | _ \<Rightarrow> js ''{}''),
       String_of = (\<lambda>v. case v of Some (JStr s) \<Rightarrow> s | _ \<Rightarrow> js ''undefined'') \<rparr>"

text \<open>A registry with the three template directories of these definitions.\<close>

definition example_registry :: world where
  "example_registry =
     \<lparr> files = map_of
         [(js ''/registry/templates/bare/template.json'', js ''{}''),
          (js ''/registry/templates/dusk/template.json'',
           js ''{\"tokens\":{\"colors\":{\"primary\":\"#fff\"}}}''),
          (js ''/registry/templates/odd/template.json'',
           js ''{\"tokens\":{\"colors\":\"c\",\"a.jsonb\":\"x\",\"ab.json\":\"y\"}}'')],
       dirs = map_of
         [(js ''/registry'', [js ''templates'']),
          (js ''/registry/templates'', [js ''bare'', js ''dusk'', js ''odd'']),
          (js ''/registry/templates/bare'', [js ''template.json'']),
          (js ''/registry/templates/dusk'', [js ''template.json'']),
          (js ''/registry/templates/odd'', [js ''template.json''])],
       written = [],
       console = [] \<rparr>"

text \<open>A registry with one template directory, whose definition is the empty object.\<close>

definition empty_template_world :: world where
  "empty_template_world =
     \<lparr> files = (\<lambda>p. if p = js ''/registry/templates/dusk/template.json'' then Some (js ''{}'')
                     else None),
       dirs = (\<lambda>p. if p = js ''/registry/templates'' then Some [js ''dusk'']
                    else if p = js ''/registry/templates/dusk'' then Some [js ''template.json'']
                    else None),
       written = [],
       console = [] \<rparr>"

text \<open>
  Two template records: the first has the token file of the colors, the second those of
  the colors and of the spacing.
\<close>

definition example_template :: "jsstring \<Rightarrow> jsstring list \<Rightarrow> template_metadata" where
  "example_template templateName groups =
     templateMetadata_object example_platform example_node example_config templateName
       (JObj [(js ''name'', JStr templateName), (js ''personality'', JObj [])])
       (map (\<lambda>g. \<lparr> tf_type = g,
                    tf_url = baseUrl example_config @ js ''/templates/'' @ templateName @
                             js ''/'' @ g @ js ''.json'',
                    tf_checksum = js ''0'' \<rparr>) groups)"

definition analysis_of_nothing :: analysis where
  "analysis_of_nothing =
     \<lparr> dependencies = [], exports = [], variants = [], sizes = [], hasHaptics = False,
       hasProvider = False, tokenUsage = [], checksum = js ''0'' \<rparr>"

text \<open>A source file that imports an icon package and declares the variants of a button.\<close>

definition button_source :: jsstring where
  "button_source =
     js ''import { Check } from \"lucide-react-native\";'' @ [0x0A] @
     js ''type ButtonVariant = 'solid' | 'outline';'' @ [0x0A]"


text \<open>
  A platform whose digest has the format of MD5; it is a stand-in and tells texts of even
  and of odd length apart only.
\<close>

definition hex_platform :: platform where
  "hex_platform =
     \<lparr> md5 = (\<lambda>s. replicate 31 0x30 @ [if even (length s) then 0x30 else 0x31]),
       toLowerCase = ascii_lower, toUpperCase = ascii_upper \<rparr>"

text \<open>
  A record of \<^verbatim>\<open>api/components.json\<close> with the seven fields; a list whose first record is
  the empty object; and the list of two components after a build.
\<close>

definition record_of :: "jsstring \<Rightarrow> json" where
  "record_of name =
     JObj [(js ''name'', JStr name), (js ''displayName'', JStr name),
           (js ''description'', JStr (js ''a component'')), (js ''category'', JStr (js ''ui'')),
           (js ''dependencies'', JArr []), (js ''exports'', JArr []),
           (js ''version'', JStr (js ''1.0.0''))]"

definition nameless_list :: json where
  "nameless_list = JArr [JObj [], record_of (js ''card'')]"

definition built_list :: json where
  "built_list = JArr [record_of (js ''button''), record_of (js ''card'')]"

text \<open>
  Node.js for the validator in the examples: \<^verbatim>\<open>path.join(__dirname, '..')\<close> is the directory
  of the registry, and \<^verbatim>\<open>JSON.parse\<close> reads the compact texts of the two lists.
\<close>

definition registry_join :: "jsstring list \<Rightarrow> jsstring" where
  "registry_join ps =
     (if ps = [js ''/registry/scripts'', js ''..''] then js ''/registry'' else example_join ps)"

definition validator_node :: node where
  "validator_node =
     example_node\<lparr> path_join := registry_join,
                    JSON_parse := map_of [(compact nameless_list, nameless_list),
                                          (compact built_list, built_list)] \<rparr>"

text \<open>
  A registry whose list starts with the empty object and that has no directory of the
  component \<^verbatim>\<open>card\<close>; a registry with both components in place; a world without one of
  its files; and the template file of \<^verbatim>\<open>card\<close>.
\<close>

definition nameless_registry :: world where
  "nameless_registry =
     \<lparr> files = map_of [(js ''/registry/api/components.json'', compact nameless_list)],
       dirs = map_of
         [(js ''/registry'', [js ''api'', js ''components'']),
          (js ''/registry/api'', [js ''components.json'']),
          (js ''/registry/components'', [])],
       written = [],
       console = [] \<rparr>"

definition built_registry :: world where
  "built_registry =
     \<lparr> files = map_of
         [(js ''/registry/api/components.json'', compact built_list),
          (js ''/registry/components/button/component.tsx.template'', js ''button''),
          (js ''/registry/components/button/component.json'', js ''{}''),
          (js ''/registry/components/card/component.tsx.template'', js ''card''),
          (js ''/registry/components/card/component.json'', js ''{}'')],
       dirs = map_of
         [(js ''/registry'', [js ''api'', js ''components'']),
          (js ''/registry/api'', [js ''components.json'']),
          (js ''/registry/components'', [js ''button'', js ''card'']),
          (js ''/registry/components/button'', [js ''component.tsx.template'', js ''component.json'']),
          (js ''/registry/components/card'', [js ''component.tsx.template'', js ''component.json''])],
       written = [],
       console = [] \<rparr>"

definition without_file :: "world \<Rightarrow> jsstring \<Rightarrow> world" where
  "without_file w p = w\<lparr>files := (files w)(p := None)\<rparr>"

definition card_template :: jsstring where
  "card_template = js ''/registry/components/card/component.tsx.template''"

section \<open>Properties\<close>

lemma str_includes_iff_sublist: "str_includes s p \<longleftrightarrow> sublist p s"
  by (induction s) (auto simp: sublist_Cons_right)

subsection \<open>The analyzer returns\<close>

text \<open>A capture group that every match goes through is defined after the match.\<close>

lemma matches_sets_group:
  "st' \<in> set (matches r st) \<Longrightarrow> sets_group i r \<or> fst st i \<noteq> None \<Longrightarrow> fst st' i \<noteq> None"
proof (induction r st arbitrary: st' rule: matches.induct)
  case (1 st)
  then show ?case by simp
next
  case (2 P st)
  from 2(2) have h: "fst st i \<noteq> None" by simp
  from 2(1) have "fst st' = fst st"
    by (cases "snd st") (simp_all split: if_splits)
  then show ?case using h by simp
next
  case (3 r1 r2 st)
  from 3(3) obtain st1 where a: "st1 \<in> set (matches r1 st)" and b: "st' \<in> set (matches r2 st1)"
    by auto
  show ?case
  proof (cases "sets_group i r2")
    case True
    then show ?thesis using 3(2)[OF a b] by simp
  next
    case False
    with 3(4) have "sets_group i r1 \<or> fst st i \<noteq> None" by simp
    from 3(1)[OF a this] have "fst st1 i \<noteq> None" .
    then show ?thesis using 3(2)[OF a b] by simp
  qed
next
  case (4 r1 r2 st)
  from 4(3) have m: "st' \<in> set (matches r1 st) \<or> st' \<in> set (matches r2 st)" by simp
  from 4(4) have h1: "sets_group i r1 \<or> fst st i \<noteq> None"
    and h2: "sets_group i r2 \<or> fst st i \<noteq> None" by auto
  from m show ?case using 4(1)[OF _ h1] 4(2)[OF _ h2] by blast
next
  case (5 r st)
  from 5(4) have h: "fst st i \<noteq> None" by simp
  have "st' \<in> set (concat (map (\<lambda>st1. if length (snd st1) < length (snd st)
           then matches (Star r) st1 else []) (matches r st)) @ [st])"
    using 5(3) by (subst (asm) matches.simps(5)) 
  then have "st' = st \<or> (\<exists>st1 \<in> set (matches r st).
       length (snd st1) < length (snd st) \<and> st' \<in> set (matches (Star r) st1))"
    by (auto simp del: matches.simps split: if_splits)
  then show ?case
  proof
    assume "st' = st"
    then show ?thesis using h by simp
  next
    assume "\<exists>st1 \<in> set (matches r st).
       length (snd st1) < length (snd st) \<and> st' \<in> set (matches (Star r) st1)"
    then obtain st1 where s: "st1 \<in> set (matches r st)" "length (snd st1) < length (snd st)"
        "st' \<in> set (matches (Star r) st1)" by blast
    from 5(1)[OF s(1)] h have "fst st1 i \<noteq> None" by simp
    then show ?thesis using 5(2)[OF s(1) s(2) s(3)] by simp
  qed
next
  case (6 j r st)
  from 6(2) obtain st1 where s: "st1 \<in> set (matches r st)"
    and e: "fst st' = (fst st1)(j \<mapsto> take (length (snd st) - length (snd st1)) (snd st))"
    by auto
  show ?case
  proof (cases "i = j")
    case True
    then show ?thesis using e by simp
  next
    case False
    with 6(3) have "sets_group i r \<or> fst st i \<noteq> None" by simp
    from 6(1)[OF s this] show ?thesis using e False by simp
  qed
qed


lemma match_at_sets_group:
  assumes "match_at r s = Some m" "sets_group i r"
  shows "snd m i \<noteq> None"
proof -
  from assms(1) obtain st sts where "matches r (Map.empty, s) = st # sts" "snd m = fst st"
    by (auto simp: match_at_def split: list.splits)
  then show ?thesis using matches_sets_group[of st r "(Map.empty, s)" i] assms(2) by simp
qed

lemma str_match_sets_group:
  "str_match r s = Some m \<Longrightarrow> sets_group i r \<Longrightarrow> snd m i \<noteq> None"
  by (induction s) (auto split: option.splits dest: match_at_sets_group)

lemma sets_group_from_re: "sets_group 1 from_re"
  by (simp add: from_re_def Plus_def)

lemma sets_group_export_name_re: "sets_group 1 export_name_re"
  by (simp add: export_name_re_def Plus_def)

lemma add_dependencies_total: "\<exists>d. add_dependencies deps ms = Inr d"
proof (induction ms arbitrary: deps)
  case Nil
  then show ?case by simp
next
  case (Cons m ms)
  show ?case
  proof (cases "str_match from_re m")
    case None
    then show ?thesis using Cons by simp
  next
    case (Some pm)
    from str_match_sets_group[OF Some sets_group_from_re] obtain pkg where "snd pm 1 = Some pkg"
      by auto
    then show ?thesis using Some Cons by simp
  qed
qed

lemma add_exports_total: "\<exists>d. add_exports exps ms = Inr d"
proof (induction ms arbitrary: exps)
  case Nil
  then show ?case by simp
next
  case (Cons m ms)
  show ?case
  proof (cases "str_match export_name_re m")
    case None
    then show ?thesis using Cons by simp
  next
    case (Some pm)
    from str_match_sets_group[OF Some sets_group_export_name_re] obtain n where "snd pm 1 = Some n"
      by auto
    then show ?thesis using Some Cons by simp
  qed
qed

lemma analyzeComponentFile_returns: "\<exists>a. analyzeComponentFile f content = Inr a"
proof -
  obtain d where d: "add_dependencies [] (or_empty (str_match_g import_re content)) = Inr d"
    using add_dependencies_total by blast
  obtain e where e: "add_exports [] (or_empty (str_match_g export_re content)) = Inr e"
    using add_exports_total by blast
  show ?thesis by (simp add: analyzeComponentFile_def d e Let_def)
qed

lemma add_literals_Nil: "add_literals acc [] = acc"
  by (simp add: add_literals_def)

text \<open>
  Claim C8. The analyzer returns a fact sheet for every source text and every digest
  function: no text makes it raise. A field whose pattern has no match in the text
  (\<^verbatim>\<open>content.match\<close> is \<^verbatim>\<open>null\<close>) is the empty set, and a flag none of whose markers occurs
  in the text is false.
\<close>

theorem analyzeComponentFile_total:
  "\<exists>a. analyzeComponentFile f content = Inr a \<and>
     (str_match_g import_re content = None \<longrightarrow> dependencies a = []) \<and>
     (str_match_g export_re content = None \<longrightarrow> exports a = []) \<and>
     (str_match_g variant_re content = None \<longrightarrow> variants a = []) \<and>
     (str_match_g size_re content = None \<longrightarrow> sizes a = []) \<and>
     (str_match_g token_re content = None \<longrightarrow> tokenUsage a = []) \<and>
     (\<not> str_includes content (js ''useHaptics'') \<and>
      \<not> str_includes content (js ''triggerHaptic'') \<longrightarrow> \<not> hasHaptics a) \<and>
     (\<not> str_includes content (js ''useTheme'') \<and>
      \<not> str_includes content (js ''useHaptics'') \<longrightarrow> \<not> hasProvider a)"
proof -
  obtain d where d: "add_dependencies [] (or_empty (str_match_g import_re content)) = Inr d"
    using add_dependencies_total by blast
  obtain e where e: "add_exports [] (or_empty (str_match_g export_re content)) = Inr e"
    using add_exports_total by blast
  have d0: "str_match_g import_re content = None \<Longrightarrow> d = []"
    using d by (simp add: or_empty_def)
  have e0: "str_match_g export_re content = None \<Longrightarrow> e = []"
    using e by (simp add: or_empty_def)
  define a where "a = \<lparr> dependencies = d, exports = e,
      variants = add_literals [] (or_empty (str_match_g variant_re content)),
      sizes = add_literals [] (or_empty (str_match_g size_re content)),
      hasHaptics = (str_includes content (js ''useHaptics'') \<or>
                    str_includes content (js ''triggerHaptic'')),
      hasProvider = (str_includes content (js ''useTheme'') \<or>
                     str_includes content (js ''useHaptics'')),
      tokenUsage = foldl Set_add [] (or_empty (str_match_g token_re content)),
      checksum = f content \<rparr>"
  have r: "analyzeComponentFile f content = Inr a"
    by (simp add: analyzeComponentFile_def d e Let_def a_def)
  have 1: "str_match_g import_re content = None \<longrightarrow> dependencies a = []"
    using d0 by (simp add: a_def)
  have 2: "str_match_g export_re content = None \<longrightarrow> exports a = []"
    using e0 by (simp add: a_def)
  have 3: "str_match_g variant_re content = None \<longrightarrow> variants a = []"
    by (simp add: a_def or_empty_def add_literals_Nil)
  have 4: "str_match_g size_re content = None \<longrightarrow> sizes a = []"
    by (simp add: a_def or_empty_def add_literals_Nil)
  have 5: "str_match_g token_re content = None \<longrightarrow> tokenUsage a = []"
    by (simp add: a_def or_empty_def)
  have 6: "\<not> str_includes content (js ''useHaptics'') \<and>
      \<not> str_includes content (js ''triggerHaptic'') \<longrightarrow> \<not> hasHaptics a"
    by (simp add: a_def)
  have 7: "\<not> str_includes content (js ''useTheme'') \<and>
      \<not> str_includes content (js ''useHaptics'') \<longrightarrow> \<not> hasProvider a"
    by (simp add: a_def)
  from r 1 2 3 4 5 6 7 show ?thesis by (intro exI[of _ a] conjI)
qed

lemma no_match_let_x:
  "str_match_g import_re (js ''let x'') = None"
  "str_match_g export_re (js ''let x'') = None"
  "str_match_g variant_re (js ''let x'') = None"
  "str_match_g size_re (js ''let x'') = None"
  "str_match_g token_re (js ''let x'') = None"
  "\<not> str_includes (js ''let x'') (js ''useHaptics'')"
  "\<not> str_includes (js ''let x'') (js ''triggerHaptic'')"
  "\<not> str_includes (js ''let x'') (js ''useTheme'')"
  by code_simp+

theorem analyzeComponentFile_total_witness:
  "\<exists>a. analyzeComponentFile (md5 example_platform) (js ''let x'') = Inr a \<and>
     dependencies a = [] \<and> exports a = [] \<and> variants a = [] \<and> sizes a = [] \<and>
     tokenUsage a = [] \<and> \<not> hasHaptics a \<and> \<not> hasProvider a"
  using analyzeComponentFile_total [of "md5 example_platform" "js ''let x''"]
  by (simp only: no_match_let_x simp_thms)

subsection \<open>Required providers\<close>

lemma provider_names_differ: "js ''HapticsProvider'' \<noteq> js ''ThemeProvider''"
  by (simp add: js_def cu_def)

lemma analyze_flags:
  assumes "analyzeComponentFile f content = Inr a"
  shows "hasHaptics a = (str_includes content (js ''useHaptics'') \<or>
                          str_includes content (js ''triggerHaptic''))"
    and "hasProvider a = (str_includes content (js ''useTheme'') \<or>
                          str_includes content (js ''useHaptics''))"
    and "checksum a = f content"
  using assms by (auto simp: analyzeComponentFile_def Let_def split: sum.splits)

lemma component_metadata_returns:
  "\<exists>a. analyzeComponentFile (md5 pf) content = Inr a \<and>
       component_metadata pf cfg componentName content =
         Inr (createComponentMetadata pf cfg componentName a)"
proof -
  obtain a where "analyzeComponentFile (md5 pf) content = Inr a"
    using analyzeComponentFile_returns by blast
  then show ?thesis by (simp add: component_metadata_def)
qed

lemma createComponentMetadata_requiredProviders:
  "c_requiredProviders (createComponentMetadata pf cfg componentName a) =
     (if hasHaptics a then [js ''HapticsProvider''] else []) @
     (if hasProvider a then [js ''ThemeProvider''] else [])"
  by (simp add: createComponentMetadata_def Let_def)

lemma createComponentMetadata_hasHaptics:
  "c_hasHaptics (createComponentMetadata pf cfg componentName a) = hasHaptics a"
  by (simp add: createComponentMetadata_def Let_def)

text \<open>
  Claim C1, as the script has it. Every component record is made; its
  \<^verbatim>\<open>requiredProviders\<close> holds \<^verbatim>\<open>HapticsProvider\<close> exactly when \<^verbatim>\<open>hasHaptics\<close> is true, that is
  when the text contains \<^verbatim>\<open>useHaptics\<close> or \<^verbatim>\<open>triggerHaptic\<close>; it holds \<^verbatim>\<open>ThemeProvider\<close>
  exactly when the text contains \<^verbatim>\<open>useTheme\<close> or \<^verbatim>\<open>useHaptics\<close>.
\<close>

theorem requiredProviders_from_markers:
  "\<exists>c. component_metadata pf cfg componentName content = Inr c \<and>
     (js ''HapticsProvider'' \<in> set (c_requiredProviders c) \<longleftrightarrow> c_hasHaptics c) \<and>
     (c_hasHaptics c \<longleftrightarrow> str_includes content (js ''useHaptics'') \<or>
                          str_includes content (js ''triggerHaptic'')) \<and>
     (js ''ThemeProvider'' \<in> set (c_requiredProviders c) \<longleftrightarrow>
        str_includes content (js ''useTheme'') \<or> str_includes content (js ''useHaptics''))"
proof -
  obtain a where a: "analyzeComponentFile (md5 pf) content = Inr a"
    and c: "component_metadata pf cfg componentName content =
            Inr (createComponentMetadata pf cfg componentName a)"
    using component_metadata_returns by blast
  let ?c = "createComponentMetadata pf cfg componentName a"
  have 1: "js ''HapticsProvider'' \<in> set (c_requiredProviders ?c) \<longleftrightarrow> c_hasHaptics ?c"
    using provider_names_differ
    by (simp add: createComponentMetadata_requiredProviders createComponentMetadata_hasHaptics)
  have 2: "c_hasHaptics ?c \<longleftrightarrow> str_includes content (js ''useHaptics'') \<or>
                          str_includes content (js ''triggerHaptic'')"
    using analyze_flags(1)[OF a] by (simp add: createComponentMetadata_hasHaptics)
  have 3: "js ''ThemeProvider'' \<in> set (c_requiredProviders ?c) \<longleftrightarrow>
        str_includes content (js ''useTheme'') \<or> str_includes content (js ''useHaptics'')"
    using analyze_flags(2)[OF a] provider_names_differ
    by (simp add: createComponentMetadata_requiredProviders)
  from c 1 2 3 show ?thesis by (intro exI[of _ ?c] conjI)
qed

lemma useTheme_only:
  "\<not> str_includes (js ''useTheme()'') (js ''triggerHaptic'')"
  "\<not> str_includes (js ''useTheme()'') (js ''useHaptics'')"
  "str_includes (js ''useTheme()'') (js ''useTheme'')"
  by code_simp+

theorem requiredProviders_from_markers_witness:
  "\<exists>c. component_metadata example_platform example_config (js ''card'') (js ''useTheme()'')
          = Inr c \<and>
       js ''HapticsProvider'' \<notin> set (c_requiredProviders c) \<and> \<not> c_hasHaptics c \<and>
       js ''ThemeProvider'' \<in> set (c_requiredProviders c)"
  using requiredProviders_from_markers
    [of example_platform example_config "js ''card''" "js ''useTheme()''"]
  by (simp only: useTheme_only simp_thms) auto

text \<open>
  A source text that contains \<^verbatim>\<open>triggerHaptic\<close> and no other marker: \<^verbatim>\<open>hasHaptics\<close> is true
  and the record does not require \<^verbatim>\<open>ThemeProvider\<close>.
\<close>

lemma trigger_only:
  "str_includes (js ''triggerHaptic'') (js ''triggerHaptic'')"
  "\<not> str_includes (js ''triggerHaptic'') (js ''useHaptics'')"
  "\<not> str_includes (js ''triggerHaptic'') (js ''useTheme'')"
  by code_simp+

theorem requiredProviders_trigger_only:
  "map_sum id c_hasHaptics
     (component_metadata example_platform example_config (js ''switch'') (js ''triggerHaptic''))
     = Inr True \<and>
   map_sum id c_requiredProviders
     (component_metadata example_platform example_config (js ''switch'') (js ''triggerHaptic''))
     = Inr [js ''HapticsProvider''] \<and>
   js ''ThemeProvider'' \<notin> set [js ''HapticsProvider'']"
proof -
  obtain a where a: "analyzeComponentFile (md5 example_platform) (js ''triggerHaptic'') = Inr a"
    and c: "component_metadata example_platform example_config (js ''switch'')
              (js ''triggerHaptic'') =
            Inr (createComponentMetadata example_platform example_config (js ''switch'') a)"
    using component_metadata_returns by blast
  have "hasHaptics a" "\<not> hasProvider a"
    using analyze_flags(1,2)[OF a] trigger_only by simp_all
  then show ?thesis
    using provider_names_differ
    by (simp add: c createComponentMetadata_requiredProviders createComponentMetadata_hasHaptics)
qed

subsection \<open>The registry index\<close>

lemma set_foldl_Set_add: "set (foldl Set_add acc xs) = set acc \<union> set xs"
  by (induction xs arbitrary: acc) (auto simp: Set_add_def)

lemma distinct_foldl_Set_add: "distinct acc \<Longrightarrow> distinct (foldl Set_add acc xs)"
  by (induction xs arbitrary: acc) (auto simp: Set_add_def)

lemma set_new_Set: "set (new_Set xs) = set xs"
  by (simp add: new_Set_def set_foldl_Set_add)

lemma distinct_new_Set: "distinct (new_Set xs)"
  by (simp add: new_Set_def distinct_foldl_Set_add)

text \<open>
  Claim C7. For every list of component records, the \<^verbatim>\<open>categories\<close> of the index hold each
  category of a component once and nothing else, and its \<^verbatim>\<open>dependencies\<close> are the union of
  the dependencies of the components, each once, in ascending order.
\<close>

theorem index_categories_dependencies:
  "set (i_categories (index_object cfg components templates providers tokens)) =
     c_category ` set components \<and>
   distinct (i_categories (index_object cfg components templates providers tokens)) \<and>
   i_dependencies (index_object cfg components templates providers tokens) =
     sorted_list_of_set (\<Union> (set ` c_dependencies ` set components))"
proof -
  have "set (new_Set (flatMap c_dependencies components)) =
          \<Union> (set ` c_dependencies ` set components)"
    by (simp add: set_new_Set flatMap_def)
  then have "sort (new_Set (flatMap c_dependencies components)) =
          sorted_list_of_set (\<Union> (set ` c_dependencies ` set components))"
    using distinct_new_Set[of "flatMap c_dependencies components"]
    by (metis sorted_list_of_set_sort_remdups distinct_remdups_id)
  then show ?thesis
    by (simp add: index_object_def set_new_Set distinct_new_Set)
qed

subsection \<open>Dependencies and variants\<close>








lemma matches_Class_intro: "P c \<Longrightarrow> (caps, rest) \<in> set (matches (Class P) (caps, c # rest))"
  by simp









































subsection \<open>Templates without colors\<close>

lemma checked_tokens_no_colors:
  "tokens_colors kvs = None \<Longrightarrow> checked_tokens (JObj kvs) = Inr None"
  by (auto simp: tokens_colors_def checked_tokens_def split: option.splits json.splits)

lemma process_template_no_colors:
  assumes "files w (path_join nd [path_join nd [templatesDir, templateName], js ''template.json''])
             = Some content"
    and "JSON_parse nd content = Some (JObj kvs)"
    and "tokens_colors kvs = None"
  shows "process_template pf nd cfg templatesDir templateName w =
     (Inr None, w\<lparr>console := console w @
        [(Log, ''Processing template'', [S templateName]),
         (Warn, ''Template missing required tokens.colors'', [S templateName])]\<rparr>)"
  using assms
  by (simp add: process_template_def Let_def readFileSync_def console_write_def
      checked_tokens_no_colors)

lemma same_fs_refl: "same_fs w w"
  by (simp add: same_fs_def)

lemma same_fs_console: "same_fs w w' \<Longrightarrow> same_fs (console_write l m a w) (console_write l' m' a' w')"
  by (simp add: same_fs_def console_write_def)

lemma same_fs_console_l: "same_fs (console_write l m a w) w"
  by (simp add: same_fs_def console_write_def)

lemma writeFileSync_same_fs:
  assumes "same_fs w w'"
  shows "(case (writeFileSync nd w p c, writeFileSync nd w' p c) of
            (Inl e, Inl e') \<Rightarrow> e = e'
          | (Inr v, Inr v') \<Rightarrow> same_fs v v'
          | _ \<Rightarrow> False)"
  using assms by (simp add: writeFileSync_def same_fs_def)

lemma write_token_files_same_fs:
  "same_fs w w' \<Longrightarrow>
   fst (write_token_files nd d tokens types gen w) = fst (write_token_files nd d tokens types gen w') \<and>
   same_fs (snd (write_token_files nd d tokens types gen w))
           (snd (write_token_files nd d tokens types gen w'))"
proof (induction types arbitrary: gen w w')
  case Nil
  then show ?case by simp
next
  case (Cons t types)
  show ?case
  proof (cases "map_of tokens t")
    case None
    then show ?thesis using Cons.prems by simp
  next
    case (Some v)
    let ?p = "path_join nd [d, t @ js ''.json'']"
    let ?c = "JSON_stringify_2 nd (Value v)"
    from writeFileSync_same_fs[OF Cons.prems, of nd ?p ?c]
    show ?thesis
      using Some Cons.prems Cons.IH
      by (auto simp: Let_def split: sum.splits)
  qed
qed


lemma readFileSync_same_fs: "same_fs w w' \<Longrightarrow> readFileSync w p = readFileSync w' p"
  by (simp add: readFileSync_def same_fs_def)

lemma generate_template_same_fs:
  assumes "same_fs w w'"
  shows "fst (generate_template pf nd cfg d name template tokens w) =
         fst (generate_template pf nd cfg d name template tokens w') \<and>
         same_fs (snd (generate_template pf nd cfg d name template tokens w))
                 (snd (generate_template pf nd cfg d name template tokens w'))"
proof -
  let ?wt = "write_token_files nd d tokens (new_Set (map fst tokens)) []"
  from write_token_files_same_fs[OF assms, of nd d tokens "new_Set (map fst tokens)" "[]"]
  have f: "fst (?wt w) = fst (?wt w')"
    and g: "same_fs (snd (?wt w)) (snd (?wt w'))" by simp_all
  obtain r1 v1 where e1: "?wt w = (r1, v1)" by (cases "?wt w")
  obtain r2 v2 where e2: "?wt w' = (r2, v2)" by (cases "?wt w'")
  from f g e1 e2 have rr: "r1 = r2" and vv: "same_fs v1 v2" by simp_all
  show ?thesis
  proof (cases r2)
    case (Inl e)
    then show ?thesis using e1 e2 rr vv by (simp add: generate_template_def)
  next
    case (Inr gen)
    note gen = this
    show ?thesis
    proof (cases "token_file_entries pf nd cfg name tokens gen")
      case (Inl e)
      then show ?thesis using e1 e2 rr vv gen by (simp add: generate_template_def)
    next
      case (Inr entries)
      let ?p = "path_join nd [d, js ''metadata.json'']"
      let ?c = "JSON_stringify_2 nd (Template_document
                (templateMetadata_object pf nd cfg name template entries))"
      have w: "(case (writeFileSync nd v1 ?p ?c, writeFileSync nd v2 ?p ?c) of
            (Inl e, Inl e') \<Rightarrow> e = e'
          | (Inr v, Inr v') \<Rightarrow> same_fs v v'
          | _ \<Rightarrow> False)" by (rule writeFileSync_same_fs[OF vv])
      show ?thesis
      proof (cases "writeFileSync nd v2 ?p ?c")
        case (Inl e)
        with w have "writeFileSync nd v1 ?p ?c = Inl e"
          by (cases "writeFileSync nd v1 ?p ?c") simp_all
        then show ?thesis using Inl Inr e1 e2 rr vv gen by (simp add: generate_template_def)
      next
        case (Inr u2)
        with w obtain u1 where u: "writeFileSync nd v1 ?p ?c = Inr u1" "same_fs u1 u2"
          by (cases "writeFileSync nd v1 ?p ?c") simp_all
        show ?thesis using u Inr \<open>token_file_entries pf nd cfg name tokens gen = Inr entries\<close>
            e1 e2 rr gen
          by (simp add: generate_template_def same_fs_console)
      qed
    qed
  qed
qed

lemma process_template_same_fs:
  assumes "same_fs w w'"
  shows "fst (process_template pf nd cfg dir name w) = fst (process_template pf nd cfg dir name w') \<and>
         same_fs (snd (process_template pf nd cfg dir name w))
                 (snd (process_template pf nd cfg dir name w'))"
proof -
  let ?l = "console_write Log ''Processing template'' [S name]"
  have s: "same_fs (?l w) (?l w')" using assms by (rule same_fs_console)
  let ?d = "path_join nd [dir, name]"
  note r = readFileSync_same_fs[OF s, of "path_join nd [?d, js ''template.json'']"]
  show ?thesis
  proof (cases "readFileSync (?l w') (path_join nd [?d, js ''template.json''])")
    case (Inl e)
    then show ?thesis using r s by (simp add: process_template_def Let_def)
  next
    case (Inr content)
    note c = this
    show ?thesis
    proof (cases "JSON_parse nd content")
      case None
      then show ?thesis using r s c by (simp add: process_template_def Let_def)
    next
      case (Some template)
      note t = this
      show ?thesis
      proof (cases "checked_tokens template")
        case (Inl e)
        then show ?thesis using r s c t by (simp add: process_template_def Let_def)
      next
        case (Inr ct)
        note k = this
        show ?thesis
        proof (cases ct)
          case None
          then show ?thesis using r s c t k
            by (simp add: process_template_def Let_def same_fs_console)
        next
          case (Some tokens)
          from generate_template_same_fs[OF s, of pf nd cfg ?d name template tokens]
          show ?thesis using r c t k Some
            by (simp add: process_template_def Let_def)
        qed
      qed
    qed
  qed
qed

lemma template_round_same_fs:
  assumes "fst st = fst st'" "same_fs (snd st) (snd st')"
  shows "fst (template_round pf nd cfg dir st name) = fst (template_round pf nd cfg dir st' name) \<and>
         same_fs (snd (template_round pf nd cfg dir st name))
                 (snd (template_round pf nd cfg dir st' name))"
proof -
  obtain r v where e1: "process_template pf nd cfg dir name (snd st) = (r, v)"
    by (cases "process_template pf nd cfg dir name (snd st)")
  obtain r' v' where e2: "process_template pf nd cfg dir name (snd st') = (r', v')"
    by (cases "process_template pf nd cfg dir name (snd st')")
  from process_template_same_fs[OF assms(2), of pf nd cfg dir name] e1 e2
  have rr: "r' = r" and vv: "same_fs v v'" by simp_all
  show ?thesis
  proof (cases r)
    case (Inl e)
    then show ?thesis using e1 e2 rr vv assms(1)
      by (simp add: template_round_def same_fs_console)
  next
    case (Inr m)
    then show ?thesis using e1 e2 rr vv assms(1)
      by (cases m) (simp_all add: template_round_def)
  qed
qed

lemma foldl_template_round_same_fs:
  "fst st = fst st' \<Longrightarrow> same_fs (snd st) (snd st') \<Longrightarrow>
   fst (foldl (template_round pf nd cfg dir) st names) =
   fst (foldl (template_round pf nd cfg dir) st' names) \<and>
   same_fs (snd (foldl (template_round pf nd cfg dir) st names))
           (snd (foldl (template_round pf nd cfg dir) st' names))"
proof (induction names arbitrary: st st')
  case Nil
  then show ?case by simp
next
  case (Cons n names)
  from template_round_same_fs[OF Cons.prems, of pf nd cfg dir n]
  show ?case using Cons.IH by simp
qed

text \<open>
  Claim C3. When the loop reaches a template directory whose definition is an object
  without the entry \<^verbatim>\<open>tokens.colors\<close>, the round prints the warning, writes nothing, adds no
  record, and the loop goes on: the records and the files that the rest of the loop
  produces are those that it produces without that directory. The templates of the
  published document are the records of the loop.
\<close>

theorem template_without_colors_skipped:
  assumes "files w (path_join nd [path_join nd [templatesDir, templateName], js ''template.json''])
             = Some content"
    and "JSON_parse nd content = Some (JObj kvs)"
    and "tokens_colors kvs = None"
  shows "template_round pf nd cfg templatesDir (ts, w) templateName =
           (ts, w\<lparr>console := console w @
              [(Log, ''Processing template'', [S templateName]),
               (Warn, ''Template missing required tokens.colors'', [S templateName])]\<rparr>) \<and>
         fst (foldl (template_round pf nd cfg templatesDir) (ts, w) (templateName # rest)) =
           fst (foldl (template_round pf nd cfg templatesDir) (ts, w) rest) \<and>
         same_fs (snd (foldl (template_round pf nd cfg templatesDir) (ts, w) (templateName # rest)))
                 (snd (foldl (template_round pf nd cfg templatesDir) (ts, w) rest))"
proof -
  let ?w = "w\<lparr>console := console w @
              [(Log, ''Processing template'', [S templateName]),
               (Warn, ''Template missing required tokens.colors'', [S templateName])]\<rparr>"
  have r: "template_round pf nd cfg templatesDir (ts, w) templateName = (ts, ?w)"
    using process_template_no_colors[OF assms, of pf cfg] by (simp add: template_round_def)
  have s: "same_fs (snd (ts, ?w)) (snd (ts, w))" by (simp add: same_fs_def)
  have f: "fst (ts, ?w) = fst (ts, w)" by simp
  from foldl_template_round_same_fs[OF f s, of pf nd cfg templatesDir rest] r
  show ?thesis by simp
qed

lemma empty_template_world_file:
  "files empty_template_world
     (path_join example_node [path_join example_node [js ''/registry/templates'', js ''dusk''],
        js ''template.json'']) = Some (js ''{}'')"
  by code_simp

lemma example_parse_empty: "JSON_parse example_node (js ''{}'') = Some (JObj [])"
  by (simp add: example_node_def example_documents_def)

lemma tokens_colors_empty: "tokens_colors [] = None"
  by (simp add: tokens_colors_def)

theorem template_without_colors_skipped_witness:
  "template_round example_platform example_node example_config (js ''/registry/templates'')
     ([], empty_template_world) (js ''dusk'') =
   ([], empty_template_world\<lparr>console :=
          [(Log, ''Processing template'', [S (js ''dusk'')]),
           (Warn, ''Template missing required tokens.colors'', [S (js ''dusk'')])]\<rparr>)"
proof -
  have c: "console empty_template_world = []" by (simp add: empty_template_world_def)
  from template_without_colors_skipped
    [OF empty_template_world_file example_parse_empty tokens_colors_empty,
     of example_platform example_config "[]" "[]"]
  show ?thesis by (simp add: c)
qed

subsection \<open>The statistics of the templates\<close>

lemma templates_api_object_returns:
  "personalities nd templates = Inr ps \<Longrightarrow> \<exists>api. templates_api_object nd cfg templates = Inr api"
  by (simp add: templates_api_object_def)

lemma example_personalities:
  "personalities example_node
     [example_template (js ''canopy'') [js ''colors''],
      example_template (js ''dusk'') [js ''colors'', js ''spacing'']] =
   Inr [js ''undefined-undefined-undefined'', js ''undefined-undefined-undefined'']"
  by (simp add: example_template_def templateMetadata_object_def field_def example_node_def
      js_def)

text \<open>
  Claim C10. In the document of the templates, \<^verbatim>\<open>stats.tokenTypes\<close> are the types of the
  token files of the first record, and empty when there is no record; a type that a later
  record has and the first has not is not among them.
\<close>

theorem tokenTypes_of_first_template:
  assumes "templates_api_object nd cfg templates = Inr api"
  shows "ts_tokenTypes (ta_stats api) =
           (case templates of [] \<Rightarrow> [] | t # _ \<Rightarrow> map tf_type (tm_tokenFiles t)) \<and>
         (\<forall>t1 t2 rest g. templates = t1 # rest \<and> t2 \<in> set rest \<and>
             g \<in> set (map tf_type (tm_tokenFiles t2)) \<and>
             g \<notin> set (map tf_type (tm_tokenFiles t1)) \<longrightarrow>
             g \<notin> set (ts_tokenTypes (ta_stats api)))"
proof -
  from assms have "ts_tokenTypes (ta_stats api) =
      (if 0 < length templates then map tf_type (tm_tokenFiles (hd templates)) else [])"
    by (auto simp: templates_api_object_def split: sum.splits)
  then have 1: "ts_tokenTypes (ta_stats api) =
           (case templates of [] \<Rightarrow> [] | t # _ \<Rightarrow> map tf_type (tm_tokenFiles t))"
    by (cases templates) simp_all
  then show ?thesis by auto
qed

theorem tokenTypes_of_first_template_witness:
  "\<exists>api. templates_api_object example_node example_config
       [example_template (js ''canopy'') [js ''colors''],
        example_template (js ''dusk'') [js ''colors'', js ''spacing'']] = Inr api \<and>
     ts_tokenTypes (ta_stats api) = [js ''colors''] \<and>
     js ''spacing'' \<in> set (map tf_type (tm_tokenFiles
        (example_template (js ''dusk'') [js ''colors'', js ''spacing'']))) \<and>
     js ''spacing'' \<notin> set (ts_tokenTypes (ta_stats api))"
proof -
  obtain api where api: "templates_api_object example_node example_config
       [example_template (js ''canopy'') [js ''colors''],
        example_template (js ''dusk'') [js ''colors'', js ''spacing'']] = Inr api"
    using templates_api_object_returns[OF example_personalities] by blast
  have ne: "js ''spacing'' \<noteq> js ''colors''" by (simp add: js_def cu_def)
  from tokenTypes_of_first_template[OF api]
  have "ts_tokenTypes (ta_stats api) = [js ''colors'']"
    by (simp add: example_template_def templateMetadata_object_def)
  moreover have "js ''spacing'' \<in> set (map tf_type (tm_tokenFiles
        (example_template (js ''dusk'') [js ''colors'', js ''spacing''])))"
    by (simp add: example_template_def templateMetadata_object_def)
  ultimately show ?thesis using api ne by (intro exI[of _ api]) simp
qed

subsection \<open>The addresses of the records\<close>

text \<open>
  Claim C6, as the script has it. Each address is made of the base address, a part that
  is fixed for the kind, and one name: for a component and for a token set the \<^verbatim>\<open>name\<close> of
  the record, for a provider its \<^verbatim>\<open>displayName\<close> (the \<^verbatim>\<open>name\<close> is the lower-case form of it),
  for a template the name of its directory, whatever the \<^verbatim>\<open>name\<close> of the record. So two
  components, or two token sets, with one name have the same addresses.
\<close>

theorem addresses_of_records:
  "(c_downloadUrl (createComponentMetadata pf cfg componentName a) =
      baseUrl cfg @ js ''/components/'' @
      c_name (createComponentMetadata pf cfg componentName a) @ js ''/component.tsx.template'' \<and>
    c_metadataUrl (createComponentMetadata pf cfg componentName a) =
      baseUrl cfg @ js ''/components/'' @
      c_name (createComponentMetadata pf cfg componentName a) @ js ''/component.json'') \<and>
   t_downloadUrl (tokenMetadata pf cfg tokenName content) =
      baseUrl cfg @ js ''/tokens/'' @ t_name (tokenMetadata pf cfg tokenName content) @
      js ''.ts.template'' \<and>
   (p_downloadUrl (providerMetadata pf cfg providerName a) =
      baseUrl cfg @ js ''/providers/'' @ p_displayName (providerMetadata pf cfg providerName a) @
      js ''.tsx.template'' \<and>
    p_name (providerMetadata pf cfg providerName a) =
      toLowerCase pf (p_displayName (providerMetadata pf cfg providerName a))) \<and>
   (tm_templateUrl (templateMetadata_object pf nd cfg templateName template tokenFiles) =
      baseUrl cfg @ js ''/templates/'' @ templateName @ js ''/template.json'' \<and>
    tm_metadataUrl (templateMetadata_object pf nd cfg templateName template tokenFiles) =
      baseUrl cfg @ js ''/templates/'' @ templateName @ js ''/metadata.json'') \<and>
   (c_name (createComponentMetadata pf cfg componentName a) =
      c_name (createComponentMetadata pf cfg componentName' a') \<longrightarrow>
    c_downloadUrl (createComponentMetadata pf cfg componentName a) =
      c_downloadUrl (createComponentMetadata pf cfg componentName' a') \<and>
    c_metadataUrl (createComponentMetadata pf cfg componentName a) =
      c_metadataUrl (createComponentMetadata pf cfg componentName' a')) \<and>
   (t_name (tokenMetadata pf cfg tokenName content) =
      t_name (tokenMetadata pf cfg tokenName' content') \<longrightarrow>
    t_downloadUrl (tokenMetadata pf cfg tokenName content) =
      t_downloadUrl (tokenMetadata pf cfg tokenName' content'))"
  by (simp add: createComponentMetadata_def Let_def tokenMetadata_def providerMetadata_def
      templateMetadata_object_def)

theorem addresses_of_records_witness:
  "c_name (createComponentMetadata example_platform example_config (js ''Card'')
      analysis_of_nothing) =
   c_name (createComponentMetadata example_platform example_config (js ''card'')
      analysis_of_nothing) \<and>
   c_downloadUrl (createComponentMetadata example_platform example_config (js ''Card'')
      analysis_of_nothing) =
   c_downloadUrl (createComponentMetadata example_platform example_config (js ''card'')
      analysis_of_nothing)"
proof -
  have n: "c_name (createComponentMetadata example_platform example_config (js ''Card'')
      analysis_of_nothing) =
   c_name (createComponentMetadata example_platform example_config (js ''card'')
      analysis_of_nothing)"
    by (simp add: createComponentMetadata_def Let_def example_platform_def ascii_lower_def
        js_def cu_def)
  with addresses_of_records
    [where pf = example_platform and cfg = example_config and componentName = "js ''Card''"
       and a = analysis_of_nothing and componentName' = "js ''card''"
       and a' = analysis_of_nothing]
  show ?thesis by blast
qed

text \<open>
  Two provider files whose names differ in the case of a letter, and two template
  directories with one definition: the records of each pair have the same \<^verbatim>\<open>name\<close> and
  different addresses.
\<close>

theorem same_name_other_address:
  "p_name (providerMetadata example_platform example_config (js ''ThemeProvider'')
      analysis_of_nothing) =
   p_name (providerMetadata example_platform example_config (js ''Themeprovider'')
      analysis_of_nothing) \<and>
   p_downloadUrl (providerMetadata example_platform example_config (js ''ThemeProvider'')
      analysis_of_nothing) \<noteq>
   p_downloadUrl (providerMetadata example_platform example_config (js ''Themeprovider'')
      analysis_of_nothing) \<and>
   tm_name (templateMetadata_object example_platform example_node example_config (js ''dusk'')
      (JObj [(js ''name'', JStr (js ''dusk''))]) []) =
   tm_name (templateMetadata_object example_platform example_node example_config (js ''night'')
      (JObj [(js ''name'', JStr (js ''dusk''))]) []) \<and>
   tm_templateUrl (templateMetadata_object example_platform example_node example_config
      (js ''dusk'') (JObj [(js ''name'', JStr (js ''dusk''))]) []) \<noteq>
   tm_templateUrl (templateMetadata_object example_platform example_node example_config
      (js ''night'') (JObj [(js ''name'', JStr (js ''dusk''))]) [])"
  by (simp add: providerMetadata_def templateMetadata_object_def example_platform_def
      ascii_lower_def js_def cu_def)

subsection \<open>The checksums of the token files\<close>

lemma json_drop_no_prefix:
  assumes "0 < n" "n < 5"
  shows "\<not> prefix (drop n (js ''.json'')) (js ''.json'')"
proof -
  from assms have "n = Suc 0 \<or> n = Suc (Suc 0) \<or> n = Suc (Suc (Suc 0)) \<or>
      n = Suc (Suc (Suc (Suc 0)))" by arith
  moreover have "\<not> prefix (drop (Suc 0) (js ''.json'')) (js ''.json'')"
    by (simp add: js_def cu_def)
  moreover have "\<not> prefix (drop (Suc (Suc 0)) (js ''.json'')) (js ''.json'')"
    by (simp add: js_def cu_def)
  moreover have "\<not> prefix (drop (Suc (Suc (Suc 0))) (js ''.json'')) (js ''.json'')"
    by (simp add: js_def cu_def)
  moreover have "\<not> prefix (drop (Suc (Suc (Suc (Suc 0)))) (js ''.json'')) (js ''.json'')"
    by (simp add: js_def cu_def)
  ultimately show ?thesis by blast
qed

lemma json_suffix_no_overlap:
  assumes "prefix (js ''.json'') (g @ js ''.json'')"
  shows "g = [] \<or> prefix (js ''.json'') g"
proof -
  define p where "p = js ''.json''"
  have l: "length p = 5" by (simp add: p_def js_def)
  from assms have "prefix p g \<or> (\<exists>us. p = g @ us \<and> prefix us p)"
    unfolding p_def by (simp only: prefix_append)
  then show ?thesis
  proof
    assume "prefix p g"
    then show ?thesis by (simp add: p_def)
  next
    assume "\<exists>us. p = g @ us \<and> prefix us p"
    then obtain us where us: "p = g @ us" "prefix us p" by blast
    have d: "drop (length g) p = us" by (simp add: us(1))
    have "length p = length g + length us" by (simp add: us(1))
    with l have le: "length g + length us = 5" by simp
    show ?thesis
    proof (cases "length g = 0 \<or> length g = 5")
      case True
      then show ?thesis
      proof
        assume "length g = 0" then show ?thesis by simp
      next
        assume "length g = 5"
        with le have "us = []" by simp
        with us(1) have "g = p" by simp
        then show ?thesis by (simp add: p_def)
      qed
    next
      case False
      with le have "0 < length g" "length g < 5" by arith+
      from json_drop_no_prefix[OF this] us(2) d show ?thesis by (simp add: p_def)
    qed
  qed
qed

lemma str_includes_prefix: "prefix p s \<Longrightarrow> str_includes s p"
  by (cases s) auto

lemma replace_first_json:
  "\<not> str_includes g (js ''.json'') \<Longrightarrow> replace_first (g @ js ''.json'') (js ''.json'') [] = g"
proof (induction g)
  case Nil
  then show ?case by (simp add: js_def cu_def)
next
  case (Cons c g)
  have "\<not> prefix (js ''.json'') ((c # g) @ js ''.json'')"
    using json_suffix_no_overlap[of "c # g"] Cons.prems str_includes_prefix by blast
  moreover have "\<not> str_includes g (js ''.json'')" using Cons.prems by simp
  ultimately show ?case using Cons.IH by simp
qed

lemma write_token_files_success:
  "write_token_files nd d tokens types gen w = (Inr fs, w1) \<Longrightarrow>
   fs = gen @ map (\<lambda>t. t @ js ''.json'') types \<and>
   (\<forall>t \<in> set types. map_of tokens t \<noteq> None) \<and>
   written w1 = written w @
     List.map_filter (\<lambda>t. map_option (\<lambda>v. (path_join nd [d, t @ js ''.json''],
                                              JSON_stringify_2 nd (Value v))) (map_of tokens t)) types"
proof (induction types arbitrary: gen w)
  case Nil
  then show ?case by (simp add: List.map_filter_simps)
next
  case (Cons t types)
  from Cons.prems obtain v where v: "map_of tokens t = Some v"
    by (cases "map_of tokens t") (simp_all add: Let_def)
  let ?p = "path_join nd [d, t @ js ''.json'']"
  let ?c = "JSON_stringify_2 nd (Value v)"
  from Cons.prems v obtain w' where w': "writeFileSync nd w ?p ?c = Inr w'"
    by (cases "writeFileSync nd w ?p ?c") (simp_all add: Let_def)
  then have wr: "written w' = written w @ [(?p, ?c)]"
    by (auto simp: writeFileSync_def split: if_splits)
  from Cons.prems v w'
  have "write_token_files nd d tokens types (gen @ [t @ js ''.json'']) w' = (Inr fs, w1)"
    by (simp add: Let_def)
  from Cons.IH[OF this] show ?case using v wr by (simp add: List.map_filter_simps)
qed

lemma token_file_entries_success:
  "token_file_entries pf nd cfg name tokens fs = Inr entries \<Longrightarrow>
   length entries = length fs \<and>
   (\<forall>i < length fs. \<exists>v. map_of tokens (replace_first (fs ! i) (js ''.json'') []) = Some v \<and>
      entries ! i = \<lparr> tf_type = replace_first (fs ! i) (js ''.json'') [],
                       tf_url = baseUrl cfg @ js ''/templates/'' @ name @ js ''/'' @ fs ! i,
                       tf_checksum = md5 pf (JSON_stringify nd v) \<rparr>)"
proof (induction fs arbitrary: entries)
  case Nil
  then show ?case by simp
next
  case (Cons f fs)
  from Cons.prems obtain v where v: "map_of tokens (replace_first f (js ''.json'') []) = Some v"
    by (cases "map_of tokens (replace_first f (js ''.json'') [])") simp_all
  from Cons.prems v obtain es where es: "token_file_entries pf nd cfg name tokens fs = Inr es"
    by (cases "token_file_entries pf nd cfg name tokens fs") simp_all
  from Cons.prems v es have e: "entries = \<lparr> tf_type = replace_first f (js ''.json'') [],
                       tf_url = baseUrl cfg @ js ''/templates/'' @ name @ js ''/'' @ f,
                       tf_checksum = md5 pf (JSON_stringify nd v) \<rparr> # es" by simp
  from Cons.IH[OF es] have ih: "length es = length fs"
    "\<And>i. i < length fs \<Longrightarrow> \<exists>v. map_of tokens (replace_first (fs ! i) (js ''.json'') []) = Some v \<and>
      es ! i = \<lparr> tf_type = replace_first (fs ! i) (js ''.json'') [],
                       tf_url = baseUrl cfg @ js ''/templates/'' @ name @ js ''/'' @ fs ! i,
                       tf_checksum = md5 pf (JSON_stringify nd v) \<rparr>" by auto
  show ?case
  proof (intro conjI allI impI)
    show "length entries = length (f # fs)" using e ih(1) by simp
  next
    fix i assume "i < length (f # fs)"
    then show "\<exists>v. map_of tokens (replace_first ((f # fs) ! i) (js ''.json'') []) = Some v \<and>
      entries ! i = \<lparr> tf_type = replace_first ((f # fs) ! i) (js ''.json'') [],
                       tf_url = baseUrl cfg @ js ''/templates/'' @ name @ js ''/'' @ (f # fs) ! i,
                       tf_checksum = md5 pf (JSON_stringify nd v) \<rparr>"
      using e v ih(2) by (cases i) auto
  qed
qed


lemma map_filter_all_some_nth:
  "i < length xs \<Longrightarrow> \<forall>x\<in>set xs. f x \<noteq> None \<Longrightarrow>
   length (List.map_filter f xs) = length xs \<and> f (xs ! i) = Some (List.map_filter f xs ! i)"
proof (induction xs arbitrary: i)
  case Nil
  then show ?case by simp
next
  case (Cons x xs)
  from Cons.prems(2) obtain y where y: "f x = Some y" by auto
  have len: "length (List.map_filter f xs) = length xs"
  proof (cases xs)
    case Nil
    then show ?thesis by (simp add: List.map_filter_simps)
  next
    case (Cons z zs)
    then have "0 < length xs" by simp
    from Cons.IH[OF this] Cons.prems(2) show ?thesis by simp
  qed
  show ?case
  proof (cases i)
    case 0
    then show ?thesis using y len by (simp add: List.map_filter_simps)
  next
    case (Suc j)
    with Cons.prems(1) have "j < length xs" by simp
    from Cons.IH[OF this] Cons.prems(2) show ?thesis
      using y len Suc by (simp add: List.map_filter_simps)
  qed
qed

lemma generate_template_success:
  assumes "generate_template pf nd cfg d name template tokens w = (Inr (Some m), w')"
  shows "\<exists>entries.
     token_file_entries pf nd cfg name tokens
       (map (\<lambda>t. t @ js ''.json'') (new_Set (map fst tokens))) = Inr entries \<and>
     m = templateMetadata_object pf nd cfg name template entries \<and>
     (\<forall>t \<in> set (new_Set (map fst tokens)). map_of tokens t \<noteq> None) \<and>
     written w' = written w @
       List.map_filter (\<lambda>t. map_option (\<lambda>v. (path_join nd [d, t @ js ''.json''],
                                              JSON_stringify_2 nd (Value v))) (map_of tokens t))
         (new_Set (map fst tokens)) @
       [(path_join nd [d, js ''metadata.json''], JSON_stringify_2 nd (Template_document m))]"
proof -
  let ?wt = "write_token_files nd d tokens (new_Set (map fst tokens)) [] w"
  obtain r w1 where e: "?wt = (r, w1)" by (cases ?wt)
  from assms e obtain fs where r: "r = Inr fs"
    by (cases r) (simp_all add: generate_template_def)
  from write_token_files_success[OF e[unfolded r]]
  have fs: "fs = map (\<lambda>t. t @ js ''.json'') (new_Set (map fst tokens))"
    and al: "\<forall>t \<in> set (new_Set (map fst tokens)). map_of tokens t \<noteq> None"
    and wr: "written w1 = written w @
       List.map_filter (\<lambda>t. map_option (\<lambda>v. (path_join nd [d, t @ js ''.json''],
                                              JSON_stringify_2 nd (Value v))) (map_of tokens t))
         (new_Set (map fst tokens))" by simp_all
  from assms e r obtain entries where en: "token_file_entries pf nd cfg name tokens fs = Inr entries"
    by (cases "token_file_entries pf nd cfg name tokens fs") (simp_all add: generate_template_def)
  let ?m = "templateMetadata_object pf nd cfg name template entries"
  let ?p = "path_join nd [d, js ''metadata.json'']"
  let ?c = "JSON_stringify_2 nd (Template_document ?m)"
  from assms e r en obtain w2 where w2: "writeFileSync nd w1 ?p ?c = Inr w2"
    by (cases "writeFileSync nd w1 ?p ?c") (simp_all add: generate_template_def)
  then have wr2: "written w2 = written w1 @ [(?p, ?c)]"
    by (auto simp: writeFileSync_def split: if_splits)
  from assms e r en w2 have m: "m = ?m"
    and w'e: "w' = console_write Log ''Template done''
             [J (field template ''displayName''), N (length fs)] w2"
    by (simp_all add: generate_template_def)
  have w': "written w' = written w2" by (simp add: w'e console_write_def)
  show ?thesis using en fs m al wr wr2 w' by (intro exI[of _ entries]) simp
qed

lemma process_template_success:
  assumes "process_template pf nd cfg dir name w = (Inr (Some m), w')"
  shows "\<exists>content template tokens.
     files w (path_join nd [path_join nd [dir, name], js ''template.json'']) = Some content \<and>
     JSON_parse nd content = Some template \<and>
     checked_tokens template = Inr (Some tokens) \<and>
     generate_template pf nd cfg (path_join nd [dir, name]) name template tokens
       (console_write Log ''Processing template'' [S name] w) = (Inr (Some m), w')"
proof -
  let ?w = "console_write Log ''Processing template'' [S name] w"
  let ?p = "path_join nd [path_join nd [dir, name], js ''template.json'']"
  from assms obtain content where c: "readFileSync ?w ?p = Inr content"
    by (cases "readFileSync ?w ?p") (simp_all add: process_template_def Let_def)
  then have f: "files w ?p = Some content"
    by (auto simp: readFileSync_def console_write_def split: option.splits)
  from assms c obtain template where t: "JSON_parse nd content = Some template"
    by (cases "JSON_parse nd content") (simp_all add: process_template_def Let_def)
  from assms c t obtain ct where k: "checked_tokens template = Inr ct"
    by (cases "checked_tokens template") (simp_all add: process_template_def Let_def)
  from assms c t k obtain tokens where ct: "ct = Some tokens"
    by (cases ct) (simp_all add: process_template_def Let_def)
  from assms c t k ct have "generate_template pf nd cfg (path_join nd [dir, name]) name
       template tokens ?w = (Inr (Some m), w')"
    by (simp add: process_template_def Let_def)
  with f t k ct show ?thesis by blast
qed

text \<open>
  When a template has been processed, the loop has written for each token group, in the
  order of the groups, the file of the group with the serialization of its value with an
  indentation of two spaces, and the record has an entry with the address of that file.
  For a group whose name does not contain \<^verbatim>\<open>.json\<close> the entry has the name of the group
  as its type and the digest of the serialization without indentation of the value as
  its checksum.
\<close>

lemma token_files_of_processed_template:
  assumes "process_template pf nd cfg templatesDir templateName w = (Inr (Some m), w')"
  shows "\<exists>content template tokens.
     files w (path_join nd [path_join nd [templatesDir, templateName], js ''template.json''])
       = Some content \<and>
     JSON_parse nd content = Some template \<and>
     checked_tokens template = Inr (Some tokens) \<and>
     length (tm_tokenFiles m) = length (new_Set (map fst tokens)) \<and>
     (\<forall>i < length (new_Set (map fst tokens)). \<exists>v.
        map_of tokens (new_Set (map fst tokens) ! i) = Some v \<and>
        written w' ! (length (written w) + i) =
          (path_join nd [path_join nd [templatesDir, templateName],
                         new_Set (map fst tokens) ! i @ js ''.json''],
           JSON_stringify_2 nd (Value v)) \<and>
        tf_url (tm_tokenFiles m ! i) =
          baseUrl cfg @ js ''/templates/'' @ templateName @ js ''/'' @
          new_Set (map fst tokens) ! i @ js ''.json'' \<and>
        (\<not> str_includes (new_Set (map fst tokens) ! i) (js ''.json'') \<longrightarrow>
           tf_type (tm_tokenFiles m ! i) = new_Set (map fst tokens) ! i \<and>
           tf_checksum (tm_tokenFiles m ! i) = md5 pf (JSON_stringify nd v) \<and>
           (JSON_stringify nd v \<noteq> JSON_stringify_2 nd (Value v) \<and>
            inj_on (md5 pf) {JSON_stringify nd v, JSON_stringify_2 nd (Value v)} \<longrightarrow>
            tf_checksum (tm_tokenFiles m ! i) \<noteq>
              md5 pf (snd (written w' ! (length (written w) + i))))))"
proof -
  let ?d = "path_join nd [templatesDir, templateName]"
  let ?w = "console_write Log ''Processing template'' [S templateName] w"
  from process_template_success[OF assms] obtain content template tokens where
    f: "files w (path_join nd [?d, js ''template.json'']) = Some content"
    and t: "JSON_parse nd content = Some template"
    and k: "checked_tokens template = Inr (Some tokens)"
    and g: "generate_template pf nd cfg ?d templateName template tokens ?w = (Inr (Some m), w')"
    by blast
  let ?gs = "new_Set (map fst tokens)"
  let ?f = "\<lambda>t. map_option (\<lambda>v. (path_join nd [?d, t @ js ''.json''],
               JSON_stringify_2 nd (Value v))) (map_of tokens t)"
  from generate_template_success[OF g] obtain entries where
    en: "token_file_entries pf nd cfg templateName tokens (map (\<lambda>t. t @ js ''.json'') ?gs)
           = Inr entries"
    and m: "m = templateMetadata_object pf nd cfg templateName template entries"
    and al: "\<forall>t \<in> set ?gs. map_of tokens t \<noteq> None"
    and wr: "written w' = written ?w @ List.map_filter ?f ?gs @
       [(path_join nd [?d, js ''metadata.json''], JSON_stringify_2 nd (Template_document m))]"
    by blast
  have ww: "written ?w = written w" by (simp add: console_write_def)
  have tf: "tm_tokenFiles m = entries" by (simp add: m templateMetadata_object_def)
  from token_file_entries_success[OF en]
  have len: "length entries = length ?gs"
    and ent: "\<And>i. i < length ?gs \<Longrightarrow>
      \<exists>v. map_of tokens (replace_first (?gs ! i @ js ''.json'') (js ''.json'') []) = Some v \<and>
        entries ! i = \<lparr> tf_type = replace_first (?gs ! i @ js ''.json'') (js ''.json'') [],
                       tf_url = baseUrl cfg @ js ''/templates/'' @ templateName @ js ''/'' @
                                ?gs ! i @ js ''.json'',
                       tf_checksum = md5 pf (JSON_stringify nd v) \<rparr>"
    by auto
  have al': "\<forall>t \<in> set ?gs. ?f t \<noteq> None" using al by auto
  have main: "\<exists>v.
        map_of tokens (?gs ! i) = Some v \<and>
        written w' ! (length (written w) + i) =
          (path_join nd [?d, ?gs ! i @ js ''.json''], JSON_stringify_2 nd (Value v)) \<and>
        tf_url (tm_tokenFiles m ! i) =
          baseUrl cfg @ js ''/templates/'' @ templateName @ js ''/'' @ ?gs ! i @ js ''.json'' \<and>
        (\<not> str_includes (?gs ! i) (js ''.json'') \<longrightarrow>
           tf_type (tm_tokenFiles m ! i) = ?gs ! i \<and>
           tf_checksum (tm_tokenFiles m ! i) = md5 pf (JSON_stringify nd v) \<and>
           (JSON_stringify nd v \<noteq> JSON_stringify_2 nd (Value v) \<and>
            inj_on (md5 pf) {JSON_stringify nd v, JSON_stringify_2 nd (Value v)} \<longrightarrow>
            tf_checksum (tm_tokenFiles m ! i) \<noteq>
              md5 pf (snd (written w' ! (length (written w) + i)))))"
    if i: "i < length ?gs" for i
  proof -
    from map_filter_all_some_nth[OF i al']
    have l2: "length (List.map_filter ?f ?gs) = length ?gs"
      and nth: "?f (?gs ! i) = Some (List.map_filter ?f ?gs ! i)" by simp_all
    from nth obtain v where v: "map_of tokens (?gs ! i) = Some v"
      and wv: "List.map_filter ?f ?gs ! i =
          (path_join nd [?d, ?gs ! i @ js ''.json''], JSON_stringify_2 nd (Value v))"
      by (cases "map_of tokens (?gs ! i)") auto
    have w1: "written w' ! (length (written w) + i) =
          (path_join nd [?d, ?gs ! i @ js ''.json''], JSON_stringify_2 nd (Value v))"
      using wv l2 i by (simp add: wr ww nth_append)
    from ent[OF i] obtain u where
      u: "map_of tokens (replace_first (?gs ! i @ js ''.json'') (js ''.json'') []) = Some u"
      and e: "entries ! i = \<lparr> tf_type = replace_first (?gs ! i @ js ''.json'') (js ''.json'') [],
                       tf_url = baseUrl cfg @ js ''/templates/'' @ templateName @ js ''/'' @
                                ?gs ! i @ js ''.json'',
                       tf_checksum = md5 pf (JSON_stringify nd u) \<rparr>" by blast
    have url: "tf_url (tm_tokenFiles m ! i) =
          baseUrl cfg @ js ''/templates/'' @ templateName @ js ''/'' @ ?gs ! i @ js ''.json''"
      by (simp add: tf e)
    have plain: "tf_type (tm_tokenFiles m ! i) = ?gs ! i \<and>
           tf_checksum (tm_tokenFiles m ! i) = md5 pf (JSON_stringify nd v) \<and>
           (JSON_stringify nd v \<noteq> JSON_stringify_2 nd (Value v) \<and>
            inj_on (md5 pf) {JSON_stringify nd v, JSON_stringify_2 nd (Value v)} \<longrightarrow>
            tf_checksum (tm_tokenFiles m ! i) \<noteq>
              md5 pf (snd (written w' ! (length (written w) + i))))"
      if n: "\<not> str_includes (?gs ! i) (js ''.json'')"
    proof -
      from replace_first_json[OF n] u v have uv: "u = v" by simp
      have ty: "tf_type (tm_tokenFiles m ! i) = ?gs ! i"
        using replace_first_json[OF n] by (simp add: tf e)
      have ck: "tf_checksum (tm_tokenFiles m ! i) = md5 pf (JSON_stringify nd v)"
        by (simp add: tf e uv)
      have sep: "JSON_stringify nd v \<noteq> JSON_stringify_2 nd (Value v) \<and>
            inj_on (md5 pf) {JSON_stringify nd v, JSON_stringify_2 nd (Value v)} \<longrightarrow>
            md5 pf (JSON_stringify nd v) \<noteq> md5 pf (JSON_stringify_2 nd (Value v))"
        by (auto simp: inj_on_def)
      have w1s: "snd (written w' ! (length (written w) + i)) = JSON_stringify_2 nd (Value v)"
        by (simp add: w1)
      have c3: "JSON_stringify nd v \<noteq> JSON_stringify_2 nd (Value v) \<and>
            inj_on (md5 pf) {JSON_stringify nd v, JSON_stringify_2 nd (Value v)} \<longrightarrow>
            tf_checksum (tm_tokenFiles m ! i) \<noteq>
              md5 pf (snd (written w' ! (length (written w) + i)))"
        unfolding ck w1s by (rule sep)
      from ty ck c3 show ?thesis by (intro conjI)
    qed
    from v w1 url plain show ?thesis by blast
  qed
  have "length (tm_tokenFiles m) = length ?gs" using tf len by simp
  with f t k main show ?thesis by blast
qed

lemma odd_processed:
  "map_sum id (map_option tm_tokenFiles)
     (fst (process_template example_platform example_node example_config
        (js ''/registry/templates'') (js ''odd'') example_registry)) =
   Inr (Some
     [\<lparr> tf_type = js ''colors'',
        tf_url = baseUrl example_config @ js ''/templates/odd/colors.json'',
        tf_checksum = js ''md5:\"c\"'' \<rparr>,
      \<lparr> tf_type = js ''ab.json'',
        tf_url = baseUrl example_config @ js ''/templates/odd/a.jsonb.json'',
        tf_checksum = js ''md5:\"y\"'' \<rparr>,
      \<lparr> tf_type = js ''ab.json'',
        tf_url = baseUrl example_config @ js ''/templates/odd/ab.json.json'',
        tf_checksum = js ''md5:\"y\"'' \<rparr>])"
  by code_simp

lemma odd_written:
  "take 3 (written (snd (process_template example_platform example_node example_config
        (js ''/registry/templates'') (js ''odd'') example_registry))) =
   [(js ''/registry/templates/odd/colors.json'', js ''\"c\"''),
    (js ''/registry/templates/odd/a.jsonb.json'', js ''\"x\"''),
    (js ''/registry/templates/odd/ab.json.json'', js ''\"y\"'')]"
  by code_simp

lemma dusk_processed:
  "map_sum id (map_option tm_tokenFiles)
     (fst (process_template example_platform example_node example_config
        (js ''/registry/templates'') (js ''dusk'') example_registry)) =
   Inr (Some
     [\<lparr> tf_type = js ''colors'',
        tf_url = baseUrl example_config @ js ''/templates/dusk/colors.json'',
        tf_checksum = js ''md5:{\"primary\":\"#fff\"}'' \<rparr>])"
  by code_simp


lemma dusk_file:
  "files example_registry
     (path_join example_node [path_join example_node [js ''/registry/templates'', js ''dusk''],
        js ''template.json'']) = Some (js ''{\"tokens\":{\"colors\":{\"primary\":\"#fff\"}}}'')"
  by code_simp

lemma dusk_parsed:
  "JSON_parse example_node (js ''{\"tokens\":{\"colors\":{\"primary\":\"#fff\"}}}'') =
   Some (JObj [(js ''tokens'',
     JObj [(js ''colors'', JObj [(js ''primary'', JStr (js ''#fff''))])])])"
  by code_simp

lemma dusk_tokens:
  "checked_tokens (JObj [(js ''tokens'',
     JObj [(js ''colors'', JObj [(js ''primary'', JStr (js ''#fff''))])])]) =
   Inr (Some [(js ''colors'', JObj [(js ''primary'', JStr (js ''#fff''))])])"
  by code_simp

lemma colors_plain: "\<not> str_includes (js ''colors'') (js ''.json'')"
  by code_simp

lemma primary_serializations:
  "compact (JObj [(js ''primary'', JStr (js ''#fff''))]) \<noteq>
   indented 0 (JObj [(js ''primary'', JStr (js ''#fff''))])"
  by code_simp

lemma example_md5_inj: "inj_on (md5 example_platform) A"
  by (simp add: example_platform_def inj_on_def)

lemma token_files_of_dusk:
  "\<exists>m w'. process_template example_platform example_node example_config
        (js ''/registry/templates'') (js ''dusk'') example_registry = (Inr (Some m), w') \<and>
     tf_checksum (tm_tokenFiles m ! 0) =
       md5 example_platform (compact (JObj [(js ''primary'', JStr (js ''#fff''))])) \<and>
     snd (written w' ! 0) = indented 0 (JObj [(js ''primary'', JStr (js ''#fff''))]) \<and>
     tf_checksum (tm_tokenFiles m ! 0) \<noteq> md5 example_platform (snd (written w' ! 0))"
proof -
  let ?V = "JObj [(js ''primary'', JStr (js ''#fff''))]"
  let ?P = "process_template example_platform example_node example_config
        (js ''/registry/templates'') (js ''dusk'') example_registry"
  obtain r w' where e: "?P = (r, w')" by (cases ?P)
  from dusk_processed e obtain m where r: "r = Inr (Some m)"
    by (cases r; cases "projr r") auto
  from token_files_of_processed_template[OF e[unfolded r]]
  obtain content template tokens where
    f: "files example_registry
          (path_join example_node [path_join example_node [js ''/registry/templates'', js ''dusk''],
             js ''template.json'']) = Some content"
    and t: "JSON_parse example_node content = Some template"
    and k: "checked_tokens template = Inr (Some tokens)"
    and a: "\<forall>i < length (new_Set (map fst tokens)). \<exists>v.
        map_of tokens (new_Set (map fst tokens) ! i) = Some v \<and>
        written w' ! (length (written example_registry) + i) =
          (path_join example_node [path_join example_node [js ''/registry/templates'', js ''dusk''],
                         new_Set (map fst tokens) ! i @ js ''.json''],
           JSON_stringify_2 example_node (Value v)) \<and>
        tf_url (tm_tokenFiles m ! i) =
          baseUrl example_config @ js ''/templates/'' @ js ''dusk'' @ js ''/'' @
          new_Set (map fst tokens) ! i @ js ''.json'' \<and>
        (\<not> str_includes (new_Set (map fst tokens) ! i) (js ''.json'') \<longrightarrow>
           tf_type (tm_tokenFiles m ! i) = new_Set (map fst tokens) ! i \<and>
           tf_checksum (tm_tokenFiles m ! i) = md5 example_platform (JSON_stringify example_node v) \<and>
           (JSON_stringify example_node v \<noteq> JSON_stringify_2 example_node (Value v) \<and>
            inj_on (md5 example_platform)
              {JSON_stringify example_node v, JSON_stringify_2 example_node (Value v)} \<longrightarrow>
            tf_checksum (tm_tokenFiles m ! i) \<noteq>
              md5 example_platform (snd (written w' ! (length (written example_registry) + i)))))"
    by blast
  from f dusk_file have c: "content = js ''{\"tokens\":{\"colors\":{\"primary\":\"#fff\"}}}''"
    by simp
  from t dusk_parsed have tp: "template = JObj [(js ''tokens'', JObj [(js ''colors'', ?V)])]"
    by (simp add: c)
  from k dusk_tokens have tk: "tokens = [(js ''colors'', ?V)]" by (simp add: tp)
  have gs: "new_Set (map fst tokens) = [js ''colors'']"
    by (simp add: tk new_Set_def Set_add_def)
  have w0: "written example_registry = []" by (simp add: example_registry_def)
  have s1: "JSON_stringify example_node ?V = compact ?V"
    and s2: "JSON_stringify_2 example_node (Value ?V) = indented 0 ?V"
    by (simp_all add: example_node_def)
  have l0: "0 < length (new_Set (map fst tokens))" by (simp add: gs)
  from a[rule_format, OF l0] obtain v where
    v: "map_of tokens (new_Set (map fst tokens) ! 0) = Some v"
    and wv: "written w' ! (length (written example_registry) + 0) =
          (path_join example_node [path_join example_node [js ''/registry/templates'', js ''dusk''],
                         new_Set (map fst tokens) ! 0 @ js ''.json''],
           JSON_stringify_2 example_node (Value v))"
    and imp: "\<not> str_includes (new_Set (map fst tokens) ! 0) (js ''.json'') \<longrightarrow>
           tf_type (tm_tokenFiles m ! 0) = new_Set (map fst tokens) ! 0 \<and>
           tf_checksum (tm_tokenFiles m ! 0) = md5 example_platform (JSON_stringify example_node v) \<and>
           (JSON_stringify example_node v \<noteq> JSON_stringify_2 example_node (Value v) \<and>
            inj_on (md5 example_platform)
              {JSON_stringify example_node v, JSON_stringify_2 example_node (Value v)} \<longrightarrow>
            tf_checksum (tm_tokenFiles m ! 0) \<noteq>
              md5 example_platform (snd (written w' ! (length (written example_registry) + 0))))"
    by blast
  from v have "map_of tokens (js ''colors'') = Some v" unfolding gs by simp
  then have vV: "v = ?V" by (simp add: tk)
  have np: "\<not> str_includes (new_Set (map fst tokens) ! 0) (js ''.json'')"
    by (simp add: gs colors_plain)
  from imp np have ck: "tf_checksum (tm_tokenFiles m ! 0) =
      md5 example_platform (JSON_stringify example_node v)"
    and sep: "JSON_stringify example_node v \<noteq> JSON_stringify_2 example_node (Value v) \<and>
            inj_on (md5 example_platform)
              {JSON_stringify example_node v, JSON_stringify_2 example_node (Value v)} \<longrightarrow>
            tf_checksum (tm_tokenFiles m ! 0) \<noteq>
              md5 example_platform (snd (written w' ! (length (written example_registry) + 0)))"
    by blast+
  have ne: "JSON_stringify example_node v \<noteq> JSON_stringify_2 example_node (Value v)"
    using primary_serializations by (simp add: vV s1 s2)
  from sep ne example_md5_inj
  have d: "tf_checksum (tm_tokenFiles m ! 0) \<noteq>
      md5 example_platform (snd (written w' ! (length (written example_registry) + 0)))"
    by blast
  have 1: "tf_checksum (tm_tokenFiles m ! 0) = md5 example_platform (compact ?V)"
    using ck by (simp add: vV s1)
  have 2: "snd (written w' ! 0) = indented 0 ?V"
    using wv by (simp add: w0 vV s2)
  have 3: "tf_checksum (tm_tokenFiles m ! 0) \<noteq> md5 example_platform (snd (written w' ! 0))"
    using d by (simp add: w0)
  from 1 2 3 have "snd (written w' ! 0) = indented 0 ?V \<and>
       tf_checksum (tm_tokenFiles m ! 0) = md5 example_platform (compact ?V) \<and>
       tf_checksum (tm_tokenFiles m ! 0) \<noteq> md5 example_platform (snd (written w' ! 0))"
    by (intro conjI)
  with e r show ?thesis by blast
qed

text \<open>
  Claim C9, at a definition with the groups \<^verbatim>\<open>a.jsonb\<close> and \<^verbatim>\<open>ab.json\<close>. The claim gives the
  entry of each group the digest of the serialization without indentation of the value of
  that group. The script takes the group of an entry from the name of the file by
  removing the first \<^verbatim>\<open>.json\<close> in it: the entry of the file \<^verbatim>\<open>a.jsonb.json\<close>, which the loop
  has written with the value \<^verbatim>\<open>"x"\<close> of the group \<^verbatim>\<open>a.jsonb\<close>, has the type \<^verbatim>\<open>ab.json\<close> and
  the digest of \<^verbatim>\<open>"y"\<close>, the value of that other group.
\<close>

theorem token_checksum_of_other_group:
  "map_sum id (map_option tm_tokenFiles)
     (fst (process_template example_platform example_node example_config
        (js ''/registry/templates'') (js ''odd'') example_registry)) =
   Inr (Some
     [\<lparr> tf_type = js ''colors'',
        tf_url = baseUrl example_config @ js ''/templates/odd/colors.json'',
        tf_checksum = js ''md5:\"c\"'' \<rparr>,
      \<lparr> tf_type = js ''ab.json'',
        tf_url = baseUrl example_config @ js ''/templates/odd/a.jsonb.json'',
        tf_checksum = js ''md5:\"y\"'' \<rparr>,
      \<lparr> tf_type = js ''ab.json'',
        tf_url = baseUrl example_config @ js ''/templates/odd/ab.json.json'',
        tf_checksum = js ''md5:\"y\"'' \<rparr>]) \<and>
   take 3 (written (snd (process_template example_platform example_node example_config
        (js ''/registry/templates'') (js ''odd'') example_registry))) =
   [(js ''/registry/templates/odd/colors.json'', js ''\"c\"''),
    (js ''/registry/templates/odd/a.jsonb.json'', js ''\"x\"''),
    (js ''/registry/templates/odd/ab.json.json'', js ''\"y\"'')]"
  using odd_processed odd_written by (rule conjI)


subsection \<open>The validator\<close>

text \<open>
  For a list of records that are objects with a string as their name, the validator goes
  through the whole list: the errors that it logs are the defects of the records, one
  record after the other, and it returns true when there is none.
\<close>

lemma plain_recordE:
  assumes "plain_record component"
  obtains kvs name where "component = JObj kvs" "map_of kvs (js ''hasOwnProperty'') = None"
    "map_of kvs (js ''name'') = Some (JStr name)"
proof -
  from assms obtain kvs where c: "component = JObj kvs"
    by (cases component) (simp_all add: plain_record_def)
  from assms have h: "map_of kvs (js ''hasOwnProperty'') = None"
    and n: "(case map_of kvs (js ''name'') of Some (JStr name) \<Rightarrow> True | _ \<Rightarrow> False)"
    by (simp_all add: plain_record_def c)
  from n obtain v where v: "map_of kvs (js ''name'') = Some v"
    by (cases "map_of kvs (js ''name'')") simp_all
  from n v obtain name where "v = JStr name" by (cases v) simp_all
  with c h v that show ?thesis by simp
qed

lemma plain_record_name: "plain_record component \<Longrightarrow> component_name component \<noteq> None"
  by (auto simp: plain_record_def component_name_def split: json.splits option.splits)

lemma check_fields_object:
  assumes "component = JObj kvs" "map_of kvs (js ''hasOwnProperty'') = None"
  shows "check_fields component fs (v, w) =
     (Inr (v \<and> filter (\<lambda>f. hasOwnProperty component (js f) = Inr False) fs = []),
      w\<lparr>console := console w @
         map (\<lambda>f. (Err, ''Component missing field'', [J (name_or_unknown component), S (js f)]))
           (filter (\<lambda>f. hasOwnProperty component (js f) = Inr False) fs)\<rparr>)"
proof (induction fs arbitrary: v w)
  case Nil
  then show ?case by simp
next
  case (Cons f fs)
  obtain b where b: "hasOwnProperty component (js f) = Inr b"
    using assms by simp
  show ?case
  proof (cases b)
    case True
    then show ?thesis using b Cons.IH by simp
  next
    case False
    then show ?thesis using b Cons.IH by (simp add: console_write_def)
  qed
qed

lemma existsSync_console [simp]:
  "existsSync (w\<lparr>console := c\<rparr>) p = existsSync w p"
  by (simp add: existsSync_def)

lemma check_files_eq:
  "check_files nd name (v, w) =
     (v \<and> file_defects nd w name = [], w\<lparr>console := console w @ file_defects nd w name\<rparr>)"
  by (simp add: check_files_def file_defects_def Let_def console_write_def)

lemma file_defects_console [simp]:
  "file_defects nd (w\<lparr>console := c\<rparr>) name = file_defects nd w name"
  by (simp add: file_defects_def Let_def)

lemma validate_component_plain:
  assumes "plain_record component" "component_name component = Some name"
  shows "validate_component nd component (v, w) =
     (Inr (v \<and> defects nd w component = []),
      w\<lparr>console := console w @ defects nd w component @
         (if v \<and> defects nd w component = [] then [(Log, ''Component valid'', [S name])]
          else [])\<rparr>)"
proof -
  from assms(1) obtain kvs name' where c: "component = JObj kvs"
    and h: "map_of kvs (js ''hasOwnProperty'') = None"
    and n': "map_of kvs (js ''name'') = Some (JStr name')"
    by (rule plain_recordE)
  from assms(2) n' have n: "map_of kvs (js ''name'') = Some (JStr name)"
    by (simp add: component_name_def c)
  let ?w1 = "w\<lparr>console := console w @ field_defects component\<rparr>"
  let ?v1 = "v \<and> field_defects component = []"
  have cf: "check_fields component requiredFields (v, w) = (Inr ?v1, ?w1)"
    unfolding check_fields_object[OF c h] by (simp add: field_defects_def)
  have g: "get (Some component) (js ''name'') = Inr (Some (JStr name))" by (simp add: c n)
  have d: "defects nd w component = field_defects component @ file_defects nd w name"
    by (simp add: defects_def assms(2))
  show ?thesis
    unfolding validate_component_def cf g
    by (auto simp: check_files_eq Let_def d console_write_def)
qed

lemma errors_append: "errors (xs @ ys) = errors xs @ errors ys"
  by (simp add: errors_def)

lemma errors_defects: "errors (defects nd w c) = defects nd w c"
  by (auto simp: errors_def defects_def field_defects_def file_defects_def Let_def
      filter_id_conv split: option.splits)

lemma defects_same_files:
  "files w' = files w \<Longrightarrow> dirs w' = dirs w \<Longrightarrow> defects nd w' c = defects nd w c"
  by (simp add: defects_def file_defects_def existsSync_def Let_def split: option.splits)

lemma validate_all_plain:
  "\<forall>c \<in> set cs. plain_record c \<Longrightarrow>
   \<exists>w'. validate_all nd cs (v, w) = (Inr (v \<and> (\<forall>c \<in> set cs. defects nd w c = [])), w') \<and>
        files w' = files w \<and> dirs w' = dirs w \<and>
        errors (console w') = errors (console w) @ concat (map (defects nd w) cs)"
proof (induction cs arbitrary: v w)
  case Nil
  then show ?case by simp
next
  case (Cons c cs)
  from Cons.prems have p: "plain_record c" by simp
  from plain_record_name[OF p] obtain name where n: "component_name c = Some name" by auto
  let ?v = "v \<and> defects nd w c = []"
  let ?w = "w\<lparr>console := console w @ defects nd w c @
         (if ?v then [(Log, ''Component valid'', [S name])] else [])\<rparr>"
  have s: "files ?w = files w" "dirs ?w = dirs w" by simp_all
  from Cons.prems have "\<forall>c \<in> set cs. plain_record c" by simp
  from Cons.IH[OF this, of ?v ?w] obtain w' where
    r: "validate_all nd cs (?v, ?w) = (Inr (?v \<and> (\<forall>c \<in> set cs. defects nd ?w c = [])), w')"
    and f: "files w' = files ?w" "dirs w' = dirs ?w"
    and e: "errors (console w') = errors (console ?w) @ concat (map (defects nd ?w) cs)"
    by blast
  have d: "defects nd ?w = defects nd w"
    by (rule ext) (rule defects_same_files[OF s])
  have il: "errors (if ?v then [(Log, ''Component valid'', [S name])] else []) = []"
    by (simp add: errors_def)
  have "console ?w = console w @ defects nd w c @
         (if ?v then [(Log, ''Component valid'', [S name])] else [])" by simp
  then have ec: "errors (console ?w) = errors (console w) @ defects nd w c"
    by (simp only: errors_append errors_defects il append_Nil2)
  have "validate_all nd (c # cs) (v, w) =
      (Inr (v \<and> (\<forall>c \<in> set (c # cs). defects nd w c = [])), w')"
    using r by (simp add: validate_component_plain[OF p n] d)
  moreover have "errors (console w') =
      errors (console w) @ concat (map (defects nd w) (c # cs))"
    unfolding e ec d by simp
  ultimately show ?case using f s by (intro exI[of _ w']) simp
qed

lemma validate_components_body_plain:
  assumes l: "listed_components nd w0 = Some cs" and p: "\<forall>c \<in> set cs. plain_record c"
    and f: "files w = files w0" "dirs w = dirs w0"
  shows "\<exists>w'. validate_components_body nd
            (path_join nd [REGISTRY_PATH nd, js ''api/components.json'']) w =
          (Inr (\<forall>c \<in> set cs. defects nd w0 c = []), w') \<and>
        errors (console w') = errors (console w) @ concat (map (defects nd w0) cs)"
proof -
  let ?p = "path_join nd [REGISTRY_PATH nd, js ''api/components.json'']"
  from l obtain content where c: "files w0 ?p = Some content"
    by (auto simp: listed_components_def split: option.splits)
  from l c obtain d where d: "JSON_parse nd content = Some d"
    by (auto simp: listed_components_def split: option.splits)
  have rf: "readFileSync w ?p = Inr content" by (simp add: readFileSync_def f c)
  from l c d have sel: "\<exists>g. get (Some d) (js ''components'') = Inr g \<and>
      (if truthy g then g else Some d) = Some (JArr cs)"
    by (auto simp: listed_components_def split: json.splits option.splits)
  then obtain g where g: "get (Some d) (js ''components'') = Inr g"
    "(if truthy g then g else Some d) = Some (JArr cs)" by blast
  from validate_all_plain[OF p, of nd True w] obtain w1 where
    r: "validate_all nd cs (True, w) = (Inr (\<forall>c \<in> set cs. defects nd w c = []), w1)"
    and e: "errors (console w1) = errors (console w) @ concat (map (defects nd w) cs)"
    by auto
  have dd: "defects nd w = defects nd w0"
    by (rule ext) (rule defects_same_files[OF f])
  let ?w' = "console_write Log ''Total components'' [N (length cs)] w1"
  have "validate_components_body nd ?p w = (Inr (\<forall>c \<in> set cs. defects nd w0 c = []), ?w')"
    by (simp add: validate_components_body_def rf d g r[unfolded dd])
  moreover have "errors (console ?w') = errors (console w) @ concat (map (defects nd w0) cs)"
    using e by (simp add: console_write_def errors_def dd)
  ultimately show ?thesis by blast
qed

lemma validateComponents_collects:
  assumes l: "listed_components nd w = Some cs" and p: "\<forall>c \<in> set cs. plain_record c"
  shows "fst (validateComponents nd w) = (\<forall>c \<in> set cs. defects nd w c = []) \<and>
         errors (console (snd (validateComponents nd w))) =
           errors (console w) @ concat (map (defects nd w) cs)"
proof -
  let ?p = "path_join nd [REGISTRY_PATH nd, js ''api/components.json'']"
  let ?w = "console_write Log ''Validating components...'' [] w"
  from l have c: "files w ?p \<noteq> None"
    by (auto simp: listed_components_def split: option.splits)
  have ex: "existsSync ?w ?p" using c by (simp add: existsSync_def console_write_def)
  have f: "files ?w = files w" "dirs ?w = dirs w" by (simp_all add: console_write_def)
  from validate_components_body_plain[OF l p f] obtain w' where
    b: "validate_components_body nd ?p ?w = (Inr (\<forall>c \<in> set cs. defects nd w c = []), w')"
    and e: "errors (console w') = errors (console ?w) @ concat (map (defects nd w) cs)"
    by blast
  have ew: "errors (console ?w) = errors (console w)"
    by (simp add: console_write_def errors_def)
  have "validateComponents nd w = ((\<forall>c \<in> set cs. defects nd w c = []), w')"
    unfolding validateComponents_def Let_def using ex b by simp
  then show ?thesis using e ew by simp
qed

lemma nameless_console:
  "fst (validateComponents validator_node nameless_registry) = False \<and>
   console (snd (validateComponents validator_node nameless_registry)) =
     [(Log, ''Validating components...'', []),
      (Err, ''Component missing field'', [J (Some (JStr (js ''unknown''))), S (js ''name'')]),
      (Err, ''Component missing field'', [J (Some (JStr (js ''unknown''))), S (js ''displayName'')]),
      (Err, ''Component missing field'', [J (Some (JStr (js ''unknown''))), S (js ''description'')]),
      (Err, ''Component missing field'', [J (Some (JStr (js ''unknown''))), S (js ''category'')]),
      (Err, ''Component missing field'', [J (Some (JStr (js ''unknown''))), S (js ''dependencies'')]),
      (Err, ''Component missing field'', [J (Some (JStr (js ''unknown''))), S (js ''exports'')]),
      (Err, ''Component missing field'', [J (Some (JStr (js ''unknown''))), S (js ''version'')]),
      (Err, ''Error validating components'', [E TypeError])]"
  by code_simp

lemma card_defects:
  "defects validator_node nameless_registry (record_of (js ''card'')) =
     [(Err, ''Component directory missing'', [S (js ''card'')])]"
  by code_simp

lemma plain_record_of: "plain_record (record_of name)"
  by (simp add: plain_record_def record_of_def js_def cu_def)

lemma built_listed:
  "listed_components validator_node built_registry =
     Some [record_of (js ''button''), record_of (js ''card'')]"
  "listed_components validator_node (without_file built_registry card_template) =
     Some [record_of (js ''button''), record_of (js ''card'')]"
  by code_simp+

lemma built_defects:
  "defects validator_node built_registry (record_of (js ''button'')) = []"
  "defects validator_node built_registry (record_of (js ''card'')) = []"
  "defects validator_node (without_file built_registry card_template) (record_of (js ''button'')) = []"
  "defects validator_node (without_file built_registry card_template) (record_of (js ''card'')) =
     [(Err, ''Component template missing'', [S (js ''card'')])]"
  by code_simp+

lemma built_console:
  "console built_registry = []" "console (without_file built_registry card_template) = []"
  by (simp_all add: built_registry_def without_file_def)

lemma deleted_template_one_defect:
  "fst (validateComponents validator_node built_registry) \<and>
   errors (console (snd (validateComponents validator_node built_registry))) = [] \<and>
   \<not> fst (validateComponents validator_node (without_file built_registry card_template)) \<and>
   errors (console (snd (validateComponents validator_node
                           (without_file built_registry card_template)))) =
     [(Err, ''Component template missing'', [S (js ''card'')])]"
proof -
  have p: "\<forall>c \<in> set [record_of (js ''button''), record_of (js ''card'')]. plain_record c"
    by (simp add: plain_record_of)
  from validateComponents_collects[OF built_listed(1) p]
  have 1: "fst (validateComponents validator_node built_registry)"
    "errors (console (snd (validateComponents validator_node built_registry))) = []"
    by (simp_all add: built_defects built_console errors_def)
  from validateComponents_collects[OF built_listed(2) p]
  have 2: "\<not> fst (validateComponents validator_node (without_file built_registry card_template))"
    "errors (console (snd (validateComponents validator_node
                           (without_file built_registry card_template)))) =
     [(Err, ''Component template missing'', [S (js ''card'')])]"
    by (simp_all add: built_defects built_console errors_def)
  from 1 2 show ?thesis by (intro conjI)
qed

text \<open>
  Claim C4. The validator is to check every record and never to stop at the first
  failure. It stops at a record without a name: in the registry whose list holds the
  empty object and then the record of \<^verbatim>\<open>card\<close>, it logs the seven missing fields of the
  first record, then \<^verbatim>\<open>path.join\<close> raises a TypeError that the \<^verbatim>\<open>catch\<close> logs, and the
  run ends: the missing directory of \<^verbatim>\<open>card\<close>, which is the defect of the second record, is
  not reported.
\<close>

theorem nameless_record_ends_validation:
  "fst (validateComponents validator_node nameless_registry) = False \<and>
   console (snd (validateComponents validator_node nameless_registry)) =
     [(Log, ''Validating components...'', []),
      (Err, ''Component missing field'', [J (Some (JStr (js ''unknown''))), S (js ''name'')]),
      (Err, ''Component missing field'', [J (Some (JStr (js ''unknown''))), S (js ''displayName'')]),
      (Err, ''Component missing field'', [J (Some (JStr (js ''unknown''))), S (js ''description'')]),
      (Err, ''Component missing field'', [J (Some (JStr (js ''unknown''))), S (js ''category'')]),
      (Err, ''Component missing field'', [J (Some (JStr (js ''unknown''))), S (js ''dependencies'')]),
      (Err, ''Component missing field'', [J (Some (JStr (js ''unknown''))), S (js ''exports'')]),
      (Err, ''Component missing field'', [J (Some (JStr (js ''unknown''))), S (js ''version'')]),
      (Err, ''Error validating components'', [E TypeError])] \<and>
   listed_components validator_node nameless_registry = Some [JObj [], record_of (js ''card'')] \<and>
   defects validator_node nameless_registry (record_of (js ''card'')) =
     [(Err, ''Component directory missing'', [S (js ''card'')])] \<and>
   (Err, ''Component directory missing'', [S (js ''card'')]) \<notin>
     set (console (snd (validateComponents validator_node nameless_registry)))"
proof -
  have l: "listed_components validator_node nameless_registry =
      Some [JObj [], record_of (js ''card'')]" by code_simp
  have n: "(Err, ''Component directory missing'', [S (js ''card'')]) \<notin>
     set (console (snd (validateComponents validator_node nameless_registry)))"
    using nameless_console by simp
  from nameless_console l card_defects n show ?thesis by (intro conjI) simp_all
qed

subsection \<open>Checksums\<close>

lemma hex_platform_digest: "hex_digest (md5 hex_platform s)"
  by (simp add: hex_platform_def hex_digest_def list_all_iff hex_digit_def)

text \<open>
  Claim C5. The checksum of a component record, of a provider record and of a token-set
  record is the digest of the text of the source file as it was read, with nothing done
  to the text before; it is the same for two builds, whose configurations differ in the
  time of the build; and where the digest of the platform is 32 hexadecimal digits for
  every text, so is each checksum.
\<close>

theorem checksum_is_digest_of_text:
  "(\<exists>c. component_metadata pf cfg componentName content = Inr c \<and>
        c_checksum c = md5 pf content) \<and>
   (\<exists>a. analyzeComponentFile (md5 pf) content = Inr a \<and>
        p_checksum (providerMetadata pf cfg providerName a) = md5 pf content) \<and>
   t_checksum (tokenMetadata pf cfg tokenName content) = md5 pf content \<and>
   map_sum id c_checksum (component_metadata pf cfg componentName content) =
     map_sum id c_checksum (component_metadata pf cfg' componentName content) \<and>
   t_checksum (tokenMetadata pf cfg tokenName content) =
     t_checksum (tokenMetadata pf cfg' tokenName content) \<and>
   ((\<forall>s. hex_digest (md5 pf s)) \<longrightarrow>
      (\<exists>c. component_metadata pf cfg componentName content = Inr c \<and>
           hex_digest (c_checksum c)) \<and>
      hex_digest (t_checksum (tokenMetadata pf cfg tokenName content)))"
proof -
  obtain a where a: "analyzeComponentFile (md5 pf) content = Inr a"
    and c: "component_metadata pf cfg componentName content =
            Inr (createComponentMetadata pf cfg componentName a)"
    using component_metadata_returns by blast
  have c': "component_metadata pf cfg' componentName content =
            Inr (createComponentMetadata pf cfg' componentName a)"
    using a by (simp add: component_metadata_def)
  have k: "checksum a = md5 pf content" by (rule analyze_flags(3)[OF a])
  have ck: "c_checksum (createComponentMetadata pf g componentName a) = md5 pf content" for g
    using k by (simp add: createComponentMetadata_def Let_def)
  have 1: "\<exists>c. component_metadata pf cfg componentName content = Inr c \<and>
        c_checksum c = md5 pf content"
    using c ck by (intro exI[of _ "createComponentMetadata pf cfg componentName a"] conjI)
  have 2: "\<exists>a. analyzeComponentFile (md5 pf) content = Inr a \<and>
        p_checksum (providerMetadata pf cfg providerName a) = md5 pf content"
    using a k by (intro exI[of _ a] conjI) (simp_all add: providerMetadata_def)
  have 3: "t_checksum (tokenMetadata pf g tokenName content) = md5 pf content" for g
    by (simp add: tokenMetadata_def)
  have 4: "map_sum id c_checksum (component_metadata pf cfg componentName content) =
     map_sum id c_checksum (component_metadata pf cfg' componentName content)"
    by (simp add: c c' ck)
  have 5: "t_checksum (tokenMetadata pf cfg tokenName content) =
     t_checksum (tokenMetadata pf cfg' tokenName content)" by (simp add: 3)
  have 6: "(\<forall>s. hex_digest (md5 pf s)) \<longrightarrow>
      (\<exists>c. component_metadata pf cfg componentName content = Inr c \<and>
           hex_digest (c_checksum c)) \<and>
      hex_digest (t_checksum (tokenMetadata pf cfg tokenName content))"
  proof
    assume h: "\<forall>s. hex_digest (md5 pf s)"
    have "\<exists>c. component_metadata pf cfg componentName content = Inr c \<and>
           hex_digest (c_checksum c)"
      using c ck h by (intro exI[of _ "createComponentMetadata pf cfg componentName a"] conjI) simp_all
    moreover have "hex_digest (t_checksum (tokenMetadata pf cfg tokenName content))"
      using h by (simp add: 3)
    ultimately show "(\<exists>c. component_metadata pf cfg componentName content = Inr c \<and>
           hex_digest (c_checksum c)) \<and>
      hex_digest (t_checksum (tokenMetadata pf cfg tokenName content))" by (rule conjI)
  qed
  from 1 2 3[of cfg] 4 5 6 show ?thesis by (intro conjI)
qed

theorem checksum_is_digest_of_text_witness:
  "(\<exists>c. component_metadata hex_platform example_config (js ''button'') button_source = Inr c \<and>
        hex_digest (c_checksum c)) \<and>
   hex_digest (t_checksum (tokenMetadata hex_platform example_config (js ''colors'') button_source))"
  using checksum_is_digest_of_text
    [where pf = hex_platform and cfg = example_config and componentName = "js ''button''"
       and content = button_source and tokenName = "js ''colors''"]
    hex_platform_digest
  by simp

end
